theory Spec2Isabelle
  imports Complex_Main "HOL-Library.Word"
begin

unbundle bit_operations_syntax

section \<open>Bytes, byte arrays and rounding\<close>

text \<open>
  A \<open>QByteArray\<close> is a list of 8-bit values. Reading past the end (\<open>QByteArray::at\<close>
  with an index outside the array) is an error of the caller; the model returns \<open>None\<close>
  there, so that every accessor that reads a byte is a partial function.
\<close>

type_synonym byte = "8 word"
type_synonym QByteArray = "byte list"

definition byte_at :: "QByteArray \<Rightarrow> nat \<Rightarrow> byte option" where
  "byte_at d i = (if i < length d then Some (d ! i) else None)"

text \<open>The narrowing conversion of a C++ \<open>int\<close> to \<open>char\<close>, \<open>qint8\<close> or \<open>quint8\<close>: the low 8 bits.\<close>

definition to_char :: "int \<Rightarrow> byte" where
  "to_char i = word_of_int i"

text \<open>
  \<open>qRound(double)\<close> rounds half away from zero: \<open>d >= 0.0 ? int(d + 0.5) : int(d - 0.5)\<close>,
  where \<open>int(...)\<close> truncates towards zero. The arguments that the payload codec rounds are
  quotients of small integers by 5, 10, 4, 360 and 256, on which the double computation and
  the exact rational computation agree; the model computes on rationals.
\<close>

definition qRound :: "rat \<Rightarrow> int" where
  "qRound d = (if d \<ge> 0 then \<lfloor>d + 1 / 2\<rfloor> else \<lceil>d - 1 / 2\<rceil>)"

section \<open>The payload codec (fanetpayload.h, fanetpayload.cpp)\<close>

datatype PayloadType =
    PTAck | PTTracking | PTName | PTMessage | PTService | PTLandmarks | PTRemoteConfig
  | PTGroundTracking | PTHWInfoOld | PTThermal | PTHWInfo | PTInvalid

record FanetPayload =
  m_type :: PayloadType
  m_data :: QByteArray

definition isValid_payload :: "FanetPayload \<Rightarrow> bool" where
  "isValid_payload p = (m_type p \<noteq> PTInvalid)"

text \<open>The bits of the Service header byte (\<open>enum ServiceHeader\<close>).\<close>

definition SHExtendedHeader :: byte where "SHExtendedHeader = 0x01"
definition SHStateOfCharge :: byte where "SHStateOfCharge = 0x02"
definition SHSupportRemoteConfig :: byte where "SHSupportRemoteConfig = 0x04"
definition SHPressure :: byte where "SHPressure = 0x08"
definition SHHumidity :: byte where "SHHumidity = 0x10"
definition SHWind :: byte where "SHWind = 0x20"
definition SHTemperature :: byte where "SHTemperature = 0x40"
definition SHInternetGateway :: byte where "SHInternetGateway = 0x80"

definition testFlag :: "byte \<Rightarrow> byte \<Rightarrow> bool" where
  "testFlag header flag = (header AND flag = flag \<and> (flag \<noteq> 0 \<or> header = 0))"

text \<open>
  \<open>FanetPayload::fromReceivedData\<close>. In the \<open>PTService\<close> branch the header byte is
  converted to the flags type through \<open>int\<close>: \<open>static_cast<ServiceHeaderFlags>(data.at(0))\<close>.
  Whether \<open>char\<close> is signed is left to the platform; it is on x86-64 Linux, and the
  conversion then extends the sign of a header with bit 7 set, so that the test for a
  mandatory position, which masks three flag bits out of the whole \<open>int\<close>, succeeds for it
  whatever its other bits. \<open>header_flags\<close> is that conversion. The tests of single flags
  (\<open>testFlag\<close>, and the masks of the \<open>PTHWInfo\<close> branch) look at the low eight bits only and
  do not depend on the sign.
\<close>

definition char_is_signed :: bool where "char_is_signed = True"

definition header_flags :: "byte \<Rightarrow> int" where
  "header_flags c = (if char_is_signed then sint c else uint c)"

definition PAYLOAD_SIZE_GROUNDTRACKING :: nat where "PAYLOAD_SIZE_GROUNDTRACKING = 7"
definition PAYLOAD_SIZE_TRACKING_MIN :: nat where "PAYLOAD_SIZE_TRACKING_MIN = 11"
definition PAYLOAD_SIZE_HWINFO_OLD_MIN :: nat where "PAYLOAD_SIZE_HWINFO_OLD_MIN = 3"
definition PAYLOAD_SIZE_THERMAL :: nat where "PAYLOAD_SIZE_THERMAL = 11"

definition hwinfo_expectedSize :: "QByteArray \<Rightarrow> nat" where
  "hwinfo_expectedSize d =
     (case d of [] \<Rightarrow> 1
      | h # _ \<Rightarrow> 1 + (if h AND 0x40 \<noteq> 0 then 3 else 0)
                   + (if h AND 0x20 \<noteq> 0 then 3 else 0)
                   + (if h AND 0x10 \<noteq> 0 then 2 else 0)
                   + (if h AND 0x08 \<noteq> 0 then 4 else 0)
                   + (if h AND 0x01 \<noteq> 0 then 1 else 0))"

definition service_expectedSize :: "QByteArray \<Rightarrow> nat" where
  "service_expectedSize d =
     (case d of [] \<Rightarrow> 1
      | header # _ \<Rightarrow> 1
          + (if header_flags header
                  AND NOT (uint SHExtendedHeader OR uint SHInternetGateway OR uint SHSupportRemoteConfig)
                \<noteq> 0
             then 6 else 0)
          + (if testFlag header SHExtendedHeader then 1 else 0)
          + (if testFlag header SHTemperature then 1 else 0)
          + (if testFlag header SHWind then 3 else 0)
          + (if testFlag header SHHumidity then 1 else 0)
          + (if testFlag header SHPressure then 2 else 0)
          + (if testFlag header SHStateOfCharge then 1 else 0))"

fun fromReceivedData :: "PayloadType \<Rightarrow> QByteArray \<Rightarrow> FanetPayload" where
  "fromReceivedData PTGroundTracking d =
     (if length d \<noteq> PAYLOAD_SIZE_GROUNDTRACKING
      then \<lparr>m_type = PTInvalid, m_data = d\<rparr>
      else \<lparr>m_type = PTGroundTracking, m_data = d\<rparr>)"
| "fromReceivedData PTTracking d =
     (if length d < PAYLOAD_SIZE_TRACKING_MIN
      then \<lparr>m_type = PTInvalid, m_data = d\<rparr>
      else \<lparr>m_type = PTTracking, m_data = d\<rparr>)"
| "fromReceivedData PTThermal d =
     (if length d < PAYLOAD_SIZE_THERMAL
      then \<lparr>m_type = PTThermal, m_data = d\<rparr>  \<comment> \<open>a warning is logged; no return in this branch\<close>
      else \<lparr>m_type = PTThermal, m_data = d\<rparr>)"
| "fromReceivedData PTName d = \<lparr>m_type = PTName, m_data = d\<rparr>"
| "fromReceivedData PTMessage d = \<lparr>m_type = PTMessage, m_data = d\<rparr>"
| "fromReceivedData PTHWInfoOld d =
     (if length d < PAYLOAD_SIZE_HWINFO_OLD_MIN
      then \<lparr>m_type = PTInvalid, m_data = d\<rparr>
      else \<lparr>m_type = PTHWInfoOld, m_data = d\<rparr>)"
| "fromReceivedData PTHWInfo d =
     (if d \<noteq> [] \<and> hd d AND 0x80 \<noteq> 0 then \<lparr>m_type = PTInvalid, m_data = d\<rparr>
      else if length d < hwinfo_expectedSize d then \<lparr>m_type = PTInvalid, m_data = d\<rparr>
      else \<lparr>m_type = PTHWInfo, m_data = d\<rparr>)"
| "fromReceivedData PTService d =
     (if length d < service_expectedSize d then \<lparr>m_type = PTInvalid, m_data = d\<rparr>
      else \<lparr>m_type = PTService, m_data = d\<rparr>)"
| "fromReceivedData _ d = \<lparr>m_type = PTInvalid, m_data = d\<rparr>"

text \<open>
  \<open>QGeoCoordinate\<close> (Qt): a coordinate is either invalid (the default-constructed one, or one
  built from a latitude outside [-90, 90] or a longitude outside [-180, 180]), or it holds a
  latitude and a longitude in degrees.
\<close>

datatype QGeoCoordinate = InvalidCoordinate | Coordinate rat rat

fun isValid_coordinate :: "QGeoCoordinate \<Rightarrow> bool" where
  "isValid_coordinate InvalidCoordinate = False"
| "isValid_coordinate (Coordinate la lo) = (- 90 \<le> la \<and> la \<le> 90 \<and> - 180 \<le> lo \<and> lo \<le> 180)"

fun latitude :: "QGeoCoordinate \<Rightarrow> rat" where
  "latitude InvalidCoordinate = 0"
| "latitude (Coordinate la lo) = la"

fun longitude :: "QGeoCoordinate \<Rightarrow> rat" where
  "longitude InvalidCoordinate = 0"
| "longitude (Coordinate la lo) = lo"

text \<open>
  \<open>FanetPayload::servicePayload\<close>. All integer parameters are C++ \<open>int\<close>. The
  comparisons, shifts and divisions by a double constant cannot overflow, and the pressure
  term is kept modulo \<open>2 ^ 16\<close> (\<open>quint16\<close>), so the parameters are mathematical integers
  here. \<open>wind >> 1\<close> is \<open>drop_bit 1 wind\<close>; appending an \<open>int\<close> to the byte array keeps
  its low 8 bits.
\<close>

definition wind_byte :: "int \<Rightarrow> byte" where
  "wind_byte wind =
     to_char (if wind > 254 then 0x80 OR uint (to_char (qRound (of_int wind / 10)))
              else 0x7F AND drop_bit 1 wind)"

definition servicePayload ::
  "byte \<Rightarrow> QGeoCoordinate \<Rightarrow> int \<Rightarrow> int \<Rightarrow> int \<Rightarrow> int \<Rightarrow> int \<Rightarrow> int \<Rightarrow> FanetPayload" where
  "servicePayload header pos temp dir wind gusts humidity pressure =
     (let lat = (if isValid_coordinate pos then qRound (latitude pos * 93206) else 0);
          lon = (if isValid_coordinate pos then qRound (longitude pos * 46603) else 0);
          pres = (word_of_int ((pressure - 430) * 10) :: 16 word)
      in \<lparr>m_type = PTService,
          m_data =
            [header]
            @ [to_char (lat AND 0x000000FF),
               to_char (drop_bit 8 (lat AND 0x0000FF00)),
               to_char (drop_bit 16 (lat AND 0x00FF0000)),
               to_char (lon AND 0x000000FF),
               to_char (drop_bit 8 (lon AND 0x0000FF00)),
               to_char (drop_bit 16 (lon AND 0x00FF0000))]
            @ (if testFlag header SHTemperature then [to_char (qRound (of_int temp / 5))] else [])
            @ (if testFlag header SHWind
               then [to_char (qRound (of_int dir * 256 / 360)), wind_byte wind, wind_byte gusts]
               else [])
            @ (if testFlag header SHHumidity then [to_char (qRound (of_int humidity / 4))] else [])
            @ (if testFlag header SHPressure
               then [to_char (uint (pres AND 0xFF)), to_char (uint (drop_bit 8 (pres AND 0xFF00)))]
               else [])\<rparr>)"

text \<open>
  The Service accessors. \<open>header_of\<close> is the first line of each of them:
  \<open>static_cast<ServiceHeaderFlags>(m_type == PTService ? m_data.at(0) : 0)\<close>.
\<close>

definition header_of :: "FanetPayload \<Rightarrow> byte option" where
  "header_of p = (if m_type p = PTService then byte_at (m_data p) 0 else Some 0)"

definition wind_offset :: "byte \<Rightarrow> nat" where
  "wind_offset header =
     (if testFlag header SHExtendedHeader then 8 else 7)
     + (if testFlag header SHTemperature then 1 else 0)"

definition TemperatureInvalid :: int where "TemperatureInvalid = - 274"

definition temperature :: "FanetPayload \<Rightarrow> int option" where
  "temperature p =
     (case header_of p of None \<Rightarrow> None
      | Some header \<Rightarrow>
          if testFlag header SHTemperature
          then (case byte_at (m_data p) (if testFlag header SHExtendedHeader then 8 else 7) of
                  None \<Rightarrow> None
                | Some c \<Rightarrow> Some (sint c * 5))
          else Some (TemperatureInvalid * 10))"

text \<open>
  \<open>FanetPayload::dir\<close>: \<open>qRound((static_cast<quint8>(m_data.at(offset) * 360) / 256.0))\<close>.
  The cast to \<open>quint8\<close> is applied to the product: the byte, promoted to \<open>int\<close>, is
  multiplied by 360 and the low 8 bits of that product are divided by 256.0. (The low 8 bits
  of the product are the same whether \<open>char\<close> is signed or unsigned.)
\<close>

definition dir :: "FanetPayload \<Rightarrow> int option" where
  "dir p =
     (case header_of p of None \<Rightarrow> None
      | Some header \<Rightarrow>
          if testFlag header SHWind
          then (case byte_at (m_data p) (wind_offset header) of
                  None \<Rightarrow> None
                | Some c \<Rightarrow> Some (qRound (of_int (uint (to_char (sint c * 360))) / 256)))
          else Some (- 1))"

definition scaled_speed :: "byte \<Rightarrow> int" where
  "scaled_speed data =
     (let scale = (if data AND 0x80 \<noteq> 0 then 25 else 5);
          speed = uint (data AND 0x7F)
      in speed * scale)"

definition wind :: "FanetPayload \<Rightarrow> int option" where
  "wind p =
     (case header_of p of None \<Rightarrow> None
      | Some header \<Rightarrow>
          if testFlag header SHWind
          then (case byte_at (m_data p) (wind_offset header + 1) of
                  None \<Rightarrow> None
                | Some data \<Rightarrow> Some (scaled_speed data))
          else Some (- 1))"

definition gusts :: "FanetPayload \<Rightarrow> int option" where
  "gusts p =
     (case header_of p of None \<Rightarrow> None
      | Some header \<Rightarrow>
          if testFlag header SHWind
          then (case byte_at (m_data p) (wind_offset header + 2) of
                  None \<Rightarrow> None
                | Some data \<Rightarrow> Some (scaled_speed data))
          else Some (- 1))"

text \<open>
  \<open>FanetPayload::heading\<close> (Tracking and Thermal) decodes the same 360/256 degree unit; it
  converts the byte to \<open>quint8\<close> first and multiplies afterwards.
\<close>

definition heading :: "FanetPayload \<Rightarrow> int option" where
  "heading p =
     (if m_type p = PTTracking \<or> m_type p = PTThermal
      then (case byte_at (m_data p) 10 of
              None \<Rightarrow> None
            | Some c \<Rightarrow> Some (qRound (of_int (uint c) * 360 / 256)))
      else Some (- 1))"

section \<open>Protocol text: the Qt string operations the codec uses\<close>

text \<open>
  Byte arrays and strings that carry protocol text are \<open>string\<close>s (lists of 8-bit
  characters). The functions of this section belong to Qt, not to the repository; they are
  written down as Qt documents them, for the inputs the protocol produces.
\<close>

definition StartDelimiter :: char where "StartDelimiter = CHR ''#''"
definition EndDelimiter :: char where "EndDelimiter = CHR 0x0A"
definition FANET_DATA_SEP :: char where "FANET_DATA_SEP = CHR '',''"

text \<open>\<open>QByteArray::trimmed\<close> removes ASCII white space from both ends.\<close>

definition isspace_ascii :: "char \<Rightarrow> bool" where
  "isspace_ascii c = (c \<in> set [CHR 0x09, CHR 0x0A, CHR 0x0B, CHR 0x0C, CHR 0x0D, CHR '' ''])"

definition trimmed :: "string \<Rightarrow> string" where
  "trimmed s = rev (dropWhile isspace_ascii (rev (dropWhile isspace_ascii s)))"

text \<open>\<open>QString::trimmed\<close> uses \<open>QChar::isSpace\<close>, which in Latin-1 also holds of 0x85 and 0xA0.\<close>

definition isSpace_qchar :: "char \<Rightarrow> bool" where
  "isSpace_qchar c = (isspace_ascii c \<or> c = CHR 0x85 \<or> c = CHR 0xA0)"

definition qstring_trimmed :: "string \<Rightarrow> string" where
  "qstring_trimmed s = rev (dropWhile isSpace_qchar (rev (dropWhile isSpace_qchar s)))"

definition startsWith :: "string \<Rightarrow> string \<Rightarrow> bool" where
  "startsWith s prefix = (take (length prefix) s = prefix)"

definition mid :: "string \<Rightarrow> nat \<Rightarrow> string" where
  "mid s pos = drop pos s"

fun indexOf_from :: "nat \<Rightarrow> char \<Rightarrow> string \<Rightarrow> int" where
  "indexOf_from i c [] = - 1"
| "indexOf_from i c (x # xs) = (if x = c then int i else indexOf_from (Suc i) c xs)"

definition indexOf :: "string \<Rightarrow> char \<Rightarrow> int" where
  "indexOf s c = indexOf_from 0 c s"

text \<open>\<open>QString::split(sep, Qt::KeepEmptyParts)\<close> and \<open>split(sep, Qt::SkipEmptyParts)\<close>.\<close>

fun split_keep :: "char \<Rightarrow> string \<Rightarrow> string list" where
  "split_keep sep [] = [[]]"
| "split_keep sep (c # cs) =
     (if c = sep then [] # split_keep sep cs
      else (case split_keep sep cs of [] \<Rightarrow> [[c]] | t # ts \<Rightarrow> (c # t) # ts))"

definition split_skip_empty :: "char \<Rightarrow> string \<Rightarrow> string list" where
  "split_skip_empty sep s = filter (\<lambda>t. t \<noteq> []) (split_keep sep s)"

text \<open>
  Number conversions (\<open>toInt\<close>, \<open>toUShort\<close>): surrounding white space is skipped, a sign
  and, in base 16, a \<open>0x\<close> prefix are accepted, at least one digit is required, and a value
  outside the range of the result type fails. A failed conversion yields 0 and \<open>ok = false\<close>.
\<close>

definition digit_val :: "char \<Rightarrow> nat option" where
  "digit_val c =
     (let n = (of_char c :: nat) in
      if 48 \<le> n \<and> n \<le> 57 then Some (n - 48)
      else if 97 \<le> n \<and> n \<le> 102 then Some (n - 87)
      else if 65 \<le> n \<and> n \<le> 70 then Some (n - 55)
      else None)"

fun digits_val :: "nat \<Rightarrow> nat \<Rightarrow> string \<Rightarrow> nat option" where
  "digits_val base acc [] = Some acc"
| "digits_val base acc (c # cs) =
     (case digit_val c of
        None \<Rightarrow> None
      | Some v \<Rightarrow> if v < base then digits_val base (acc * base + v) cs else None)"

definition parse_int :: "nat \<Rightarrow> string \<Rightarrow> int option" where
  "parse_int base s =
     (let t = qstring_trimmed s;
          neg = (t \<noteq> [] \<and> hd t = CHR ''-'');
          u = (if t \<noteq> [] \<and> (hd t = CHR ''-'' \<or> hd t = CHR ''+'') then tl t else t);
          v = (if base = 16 \<and> (startsWith u ''0x'' \<or> startsWith u ''0X'') then drop 2 u else u)
      in if v = [] then None
         else (case digits_val base 0 v of
                 None \<Rightarrow> None
               | Some n \<Rightarrow> Some (if neg then - int n else int n)))"

definition toInt :: "nat \<Rightarrow> string \<Rightarrow> int \<times> bool" where
  "toInt base s =
     (case parse_int base s of
        None \<Rightarrow> (0, False)
      | Some v \<Rightarrow> if - (2 ^ 31) \<le> v \<and> v < 2 ^ 31 then (v, True) else (0, False))"

definition toUShort :: "nat \<Rightarrow> string \<Rightarrow> nat \<times> bool" where
  "toUShort base s =
     (case parse_int base s of
        None \<Rightarrow> (0, False)
      | Some v \<Rightarrow> if 0 \<le> v \<and> v < 2 ^ 16 then (nat v, True) else (0, False))"

text \<open>\<open>QString::number(n)\<close> and \<open>QString::number(n, 16)\<close> for a non-negative \<open>n\<close>.\<close>

definition digit_char :: "nat \<Rightarrow> char" where
  "digit_char v = ''0123456789abcdef'' ! (v mod 16)"

fun number :: "nat \<Rightarrow> nat \<Rightarrow> string" where
  "number base n =
     (if base < 2 \<or> n < base then [digit_char n]
      else number base (n div base) @ [digit_char (n mod base)])"

text \<open>\<open>QByteArray::toHex\<close>: two lower-case digits for each byte.\<close>

definition toHex :: "QByteArray \<Rightarrow> string" where
  "toHex d = concat (map (\<lambda>b. [digit_char (unat b div 16), digit_char (unat b mod 16)]) d)"

text \<open>
  \<open>QByteArray::fromHex\<close>: characters that are not hex digits are skipped; the digits are
  paired from the end, so an odd number of digits leaves the first one as a byte of its own.
\<close>

fun pair_nibbles :: "nat list \<Rightarrow> QByteArray" where
  "pair_nibbles (hi # lo # rest) = of_nat (hi * 16 + lo) # pair_nibbles rest"
| "pair_nibbles _ = []"

definition fromHex :: "string \<Rightarrow> QByteArray" where
  "fromHex s =
     (let ds = map the (filter (\<lambda>v. v \<noteq> None) (map digit_val s))
      in pair_nibbles (if odd (length ds) then 0 # ds else ds))"

section \<open>Addresses (fanetaddress.cpp)\<close>

record FanetAddress =
  m_manufacturerId :: "8 word"
  m_deviceId :: "16 word"

definition MANUFACUTER_ID_INVALID :: "8 word" where "MANUFACUTER_ID_INVALID = 0xff"
definition DEVICE_ID_INVALID :: "16 word" where "DEVICE_ID_INVALID = 0xffff"

text \<open>The default address \<open>FanetAddress()\<close> is \<open>(0, 0)\<close>, the broadcast address.\<close>

definition FanetAddress_default :: FanetAddress where
  "FanetAddress_default = \<lparr>m_manufacturerId = 0, m_deviceId = 0\<rparr>"

text \<open>\<open>FanetAddress::FanetAddress(const QByteArray &data)\<close>.\<close>

definition FanetAddress_fromData :: "string \<Rightarrow> FanetAddress" where
  "FanetAddress_fromData data =
     (let sep = max (indexOf data CHR '','') (indexOf data CHR '':'')
      in if sep > 0 \<and> sep < 3 \<and> int (length data) > sep + 1
         then \<lparr>m_manufacturerId = of_nat (fst (toUShort 16 (take (nat sep) data))) AND 0xff,
               m_deviceId = of_nat (fst (toUShort 16 (mid data (nat sep + 1))))\<rparr>
         else \<lparr>m_manufacturerId = MANUFACUTER_ID_INVALID, m_deviceId = DEVICE_ID_INVALID\<rparr>)"

definition isValid_address :: "FanetAddress \<Rightarrow> bool" where
  "isValid_address a =
     (m_manufacturerId a \<noteq> MANUFACUTER_ID_INVALID \<and> m_deviceId a \<noteq> DEVICE_ID_INVALID)"

definition isBroadcast :: "FanetAddress \<Rightarrow> bool" where
  "isBroadcast a = (m_manufacturerId a = 0 \<and> m_deviceId a = 0)"

definition address_toHex :: "FanetAddress \<Rightarrow> char \<Rightarrow> string" where
  "address_toHex a separator =
     toHex [m_manufacturerId a] @ [separator]
     @ toHex [ucast (drop_bit 8 (m_deviceId a AND 0xff00)), ucast (m_deviceId a AND 0x00ff)]"

definition toUInt32 :: "FanetAddress \<Rightarrow> 32 word" where
  "toUInt32 a = push_bit 16 (ucast (m_manufacturerId a)) OR ucast (m_deviceId a)"

section \<open>Messages (abstractfanetmessage.h and its subclasses)\<close>

datatype FanetMessageType =
    FMTInvalid | FMTVersionCommand | FMTRegionCommand | FMTEnableCommand | FMTTransmitCommand
  | FMTReply | FMTVersionReply | FMTRegionReply | FMTFanetReply | FMTEvent | FMTPktReceivedEvent

fun type_code :: "FanetMessageType \<Rightarrow> nat" where
  "type_code FMTInvalid = 0x00"
| "type_code FMTVersionCommand = 0x01"
| "type_code FMTRegionCommand = 0x02"
| "type_code FMTEnableCommand = 0x03"
| "type_code FMTTransmitCommand = 0x04"
| "type_code FMTReply = 0x40"
| "type_code FMTVersionReply = 0x41"
| "type_code FMTRegionReply = 0x42"
| "type_code FMTFanetReply = 0x44"
| "type_code FMTEvent = 0x80"
| "type_code FMTPktReceivedEvent = 0x81"

datatype ReplyType = ReplyOther | ReplyOk | ReplyMsg | ReplyError | ReplyAck | ReplyNack

text \<open>
  \<open>GenericReply\<close>: the message type given to the constructor, the raw body, and the three
  parsed members. The class has no address member.
\<close>

record GenericReply =
  gr_type :: FanetMessageType
  gr_data :: string
  m_code :: int
  m_reply :: ReplyType
  m_msg :: string

definition REPLY_CODE_INVALID :: int where "REPLY_CODE_INVALID = - 1"

text \<open>\<open>GenericReply::GenericReply(FanetMessageType type, const QByteArray &data)\<close>.\<close>

definition GenericReply_ctor :: "FanetMessageType \<Rightarrow> string \<Rightarrow> GenericReply" where
  "GenericReply_ctor type data =
     (let init = \<lparr>gr_type = type, gr_data = data, m_code = REPLY_CODE_INVALID,
                  m_reply = ReplyOther, m_msg = []\<rparr>;
          tmp = split_skip_empty FANET_DATA_SEP (qstring_trimmed data)
      in if tmp = [] then init
         else if hd tmp = ''OK'' then init\<lparr>m_reply := ReplyOk\<rparr>
         else if hd tmp = ''ACK'' then init\<lparr>m_reply := ReplyAck\<rparr>
         else if hd tmp = ''NACK'' then init\<lparr>m_reply := ReplyNack\<rparr>
         else
           (let r1 = (if hd tmp = ''MSG'' then init\<lparr>m_reply := ReplyMsg\<rparr> else init);
                r2 = (if hd tmp = ''ERR'' then r1\<lparr>m_reply := ReplyError\<rparr> else r1)
            in if length tmp > 2
               then r2\<lparr>m_code := fst (toInt 10 (tmp ! 1)), m_msg := tmp ! 2\<rparr>
               else r2))"

datatype FanetFreq = FreqInvalid | Freq868MHz | Freq915Mhz

record ReceiveEvent =
  ev_addr :: FanetAddress
  ev_payload :: FanetPayload
  m_sig :: string
  m_broadcast :: bool

fun payloadType_of_int :: "int \<Rightarrow> PayloadType" where
  "payloadType_of_int i =
     (if i = 0 then PTAck else if i = 1 then PTTracking else if i = 2 then PTName
      else if i = 3 then PTMessage else if i = 4 then PTService else if i = 5 then PTLandmarks
      else if i = 6 then PTRemoteConfig else if i = 7 then PTGroundTracking
      else if i = 8 then PTHWInfoOld else if i = 9 then PTThermal else if i = 10 then PTHWInfo
      else PTInvalid)"

fun payloadType_code :: "PayloadType \<Rightarrow> nat" where
  "payloadType_code PTAck = 0"
| "payloadType_code PTTracking = 1"
| "payloadType_code PTName = 2"
| "payloadType_code PTMessage = 3"
| "payloadType_code PTService = 4"
| "payloadType_code PTLandmarks = 5"
| "payloadType_code PTRemoteConfig = 6"
| "payloadType_code PTGroundTracking = 7"
| "payloadType_code PTHWInfoOld = 8"
| "payloadType_code PTThermal = 9"
| "payloadType_code PTHWInfo = 10"
| "payloadType_code PTInvalid = 0xFF"

text \<open>
  \<open>ReceiveEvent::ReceiveEvent(const QByteArray &data)\<close>. A type number outside the
  enumeration takes the \<open>default\<close> branch of \<open>fromReceivedData\<close>, as \<open>PTInvalid\<close> does.
\<close>

definition ReceiveEvent_ctor :: "string \<Rightarrow> ReceiveEvent" where
  "ReceiveEvent_ctor data =
     (let init = \<lparr>ev_addr = FanetAddress_default,
                  ev_payload = \<lparr>m_type = PTInvalid, m_data = []\<rparr>,
                  m_sig = [], m_broadcast = False\<rparr>;
          tmp = split_skip_empty FANET_DATA_SEP (qstring_trimmed data)
      in if length tmp < 7 then init
         else
           (let e = init\<lparr>ev_addr := FanetAddress_fromData (tmp ! 0 @ [FANET_DATA_SEP] @ tmp ! 1),
                         m_broadcast := (qstring_trimmed (tmp ! 2) = ''1''),
                         m_sig := tmp ! 3\<rparr>;
                conv = toInt 16 (tmp ! 4)
            in if \<not> snd conv then e
               else e\<lparr>ev_payload :=
                        fromReceivedData (payloadType_of_int (fst conv)) (fromHex (tmp ! 6))\<rparr>))"

text \<open>
  The class hierarchy under \<open>AbstractFanetMessage\<close> as one datatype. A \<open>TransmitReply\<close> is
  a \<open>GenericReply\<close> with an address; a \<open>VersionReply\<close> holds its trimmed body.
\<close>

datatype AbstractFanetMessage =
    MsgReceiveEvent ReceiveEvent
  | MsgTransmitReply GenericReply FanetAddress
  | MsgVersionReply string
  | MsgGenericReply GenericReply
  | MsgVersionCommand
  | MsgRegionCommand int FanetFreq
  | MsgEnableCommand bool
  | MsgTransmitCommand FanetAddress FanetPayload

text \<open>\<open>TransmitReply::TransmitReply(const QByteArray &data)\<close>.\<close>

definition TransmitReply_ctor :: "string \<Rightarrow> AbstractFanetMessage" where
  "TransmitReply_ctor data =
     (let g = GenericReply_ctor FMTFanetReply data
      in MsgTransmitReply g
           (if m_reply g = ReplyAck \<or> m_reply g = ReplyNack
            then FanetAddress_fromData (mid data (nat (indexOf data FANET_DATA_SEP + 1)))
            else FanetAddress_default))"

definition VersionReply_ctor :: "string \<Rightarrow> AbstractFanetMessage" where
  "VersionReply_ctor data = MsgVersionReply (trimmed data)"

definition FANET_TXPOWER_MIN :: int where "FANET_TXPOWER_MIN = 2"
definition FANET_TXPOWER_MAX :: int where "FANET_TXPOWER_MAX = 20"

text \<open>\<open>RegionCommand::RegionCommand(int txPower, FanetFreq freq)\<close> clamps the power.\<close>

definition RegionCommand_ctor :: "int \<Rightarrow> FanetFreq \<Rightarrow> AbstractFanetMessage" where
  "RegionCommand_ctor txPower freq =
     (let p1 = (if txPower < FANET_TXPOWER_MIN then FANET_TXPOWER_MIN else txPower);
          p2 = (if txPower > FANET_TXPOWER_MAX then FANET_TXPOWER_MAX else p1)
      in MsgRegionCommand p2 freq)"

fun msg_type :: "AbstractFanetMessage \<Rightarrow> FanetMessageType" where
  "msg_type (MsgReceiveEvent e) = FMTPktReceivedEvent"
| "msg_type (MsgTransmitReply g a) = gr_type g"
| "msg_type (MsgVersionReply d) = FMTVersionReply"
| "msg_type (MsgGenericReply g) = gr_type g"
| "msg_type MsgVersionCommand = FMTVersionCommand"
| "msg_type (MsgRegionCommand p f) = FMTRegionCommand"
| "msg_type (MsgEnableCommand e) = FMTEnableCommand"
| "msg_type (MsgTransmitCommand a p) = FMTTransmitCommand"

definition FANET_VERSION_PREFIX :: string where "FANET_VERSION_PREFIX = ''build-''"

definition isValid_base :: "AbstractFanetMessage \<Rightarrow> bool" where
  "isValid_base m = (msg_type m \<noteq> FMTInvalid)"

definition isValid_GenericReply :: "GenericReply \<Rightarrow> bool" where
  "isValid_GenericReply g = (m_reply g \<noteq> ReplyOther \<and> gr_type g \<noteq> FMTInvalid)"

text \<open>The virtual \<open>isValid()\<close>, by class.\<close>

fun isValid :: "AbstractFanetMessage \<Rightarrow> bool" where
  "isValid (MsgReceiveEvent e) = (isValid_address (ev_addr e) \<and> isValid_payload (ev_payload e))"
| "isValid (MsgTransmitReply g a) =
     (if m_reply g = ReplyAck \<or> m_reply g = ReplyNack
      then isValid_address a \<and> isValid_GenericReply g
      else isValid_GenericReply g)"
| "isValid (MsgVersionReply d) = startsWith d FANET_VERSION_PREFIX"
| "isValid (MsgGenericReply g) = isValid_GenericReply g"
| "isValid (MsgRegionCommand p f) = (f \<noteq> FreqInvalid)"
| "isValid m = isValid_base m"

definition isReply :: "AbstractFanetMessage \<Rightarrow> bool" where
  "isReply m = (((of_nat (type_code (msg_type m)) :: 8 word) AND 0x40) \<noteq> 0)"

definition isCommand :: "AbstractFanetMessage \<Rightarrow> bool" where
  "isCommand m =
     (type_code (msg_type m) > type_code FMTInvalid \<and> type_code (msg_type m) < type_code FMTReply)"

text \<open>\<open>VersionReply::version()\<close>: the body without its \<open>build-\<close> prefix, or empty.\<close>

definition version :: "string \<Rightarrow> string" where
  "version d =
     (if startsWith d FANET_VERSION_PREFIX then mid d (length FANET_VERSION_PREFIX) else [])"

definition FANET_REGION_CMD :: string where "FANET_REGION_CMD = ''DGL''"
definition FANET_TRANSMIT_CMD :: string where "FANET_TRANSMIT_CMD = ''FNT''"
definition FANET_VERSION_CMD :: string where "FANET_VERSION_CMD = ''DGV''"
definition FANET_ENABLE_CMD :: string where "FANET_ENABLE_CMD = ''DGP''"
definition MSG_VERSION_REPLY :: string where "MSG_VERSION_REPLY = ''DGV''"
definition MSG_REGION_REPLY :: string where "MSG_REGION_REPLY = ''DGR''"
definition MSG_FANET_REPLY :: string where "MSG_FANET_REPLY = ''FNR''"
definition MSG_FANET_RECEIVE :: string where "MSG_FANET_RECEIVE = ''FNF''"

definition GenericReply_serialize :: "GenericReply \<Rightarrow> string" where
  "GenericReply_serialize g =
     (case gr_type g of
        FMTVersionReply \<Rightarrow> MSG_VERSION_REPLY @ '' '' @ gr_data g
      | FMTRegionReply \<Rightarrow> MSG_REGION_REPLY @ '' '' @ gr_data g
      | FMTFanetReply \<Rightarrow> MSG_FANET_REPLY @ '' '' @ gr_data g
      | _ \<Rightarrow> [])"

text \<open>The virtual \<open>serialize()\<close>, by class.\<close>

fun serialize :: "AbstractFanetMessage \<Rightarrow> string" where
  "serialize (MsgReceiveEvent e) =
     MSG_FANET_RECEIVE @ '' '' @ address_toHex (ev_addr e) FANET_DATA_SEP
     @ [FANET_DATA_SEP] @ (if m_broadcast e then ''1'' else ''0'')
     @ [FANET_DATA_SEP] @ m_sig e
     @ [FANET_DATA_SEP] @ number 16 (payloadType_code (m_type (ev_payload e)))
     @ [FANET_DATA_SEP] @ number 16 (length (m_data (ev_payload e)))
     @ [FANET_DATA_SEP] @ toHex (m_data (ev_payload e))"
| "serialize (MsgTransmitReply g a) = GenericReply_serialize g"
| "serialize (MsgVersionReply d) = MSG_VERSION_REPLY @ '' '' @ d"
| "serialize (MsgGenericReply g) = GenericReply_serialize g"
| "serialize MsgVersionCommand = FANET_VERSION_CMD"
| "serialize (MsgRegionCommand txPower freq) =
     (case freq of
        Freq868MHz \<Rightarrow> FANET_REGION_CMD @ '' '' @ ''868'' @ [FANET_DATA_SEP] @ number 10 (nat txPower)
      | Freq915Mhz \<Rightarrow> FANET_REGION_CMD @ '' '' @ ''915'' @ [FANET_DATA_SEP] @ number 10 (nat txPower)
      | FreqInvalid \<Rightarrow> [])"
| "serialize (MsgEnableCommand enable) = FANET_ENABLE_CMD @ '' '' @ (if enable then ''1'' else ''0'')"
| "serialize (MsgTransmitCommand addr payload) =
     (if m_type payload = PTInvalid then []
      else FANET_TRANSMIT_CMD @ '' '' @ number 10 (payloadType_code (m_type payload))
           @ '','' @ address_toHex addr FANET_DATA_SEP
           @ '','' @ (if isBroadcast addr then ''0'' else ''1'')
           @ '','' @ (if isBroadcast addr then ''0'' else ''1'')
           @ '','' @ number 16 (length (m_data payload))
           @ '','' @ toHex (m_data payload))"

section \<open>The frame parser (fanetprotocolparser.cpp)\<close>

text \<open>
  The parser owns a buffer and a logger. The log is kept as a list of entries: the warning
  for a discarded partial buffer, the debug line for a completed body, and the warning for a
  body that no message class accepts.
\<close>

datatype parser_log = DiscardingIncomplete string | MsgReceived string | MessageIgnored string

record FanetProtocolParser =
  m_buffer :: string
  m_log :: "parser_log list"

definition MSG_SIZE_IDENTIFIER :: nat where "MSG_SIZE_IDENTIFIER = 3"
definition MSG_INIT_IGNORE :: string where "MSG_INIT_IGNORE = ''CCCCCC''"

text \<open>\<open>FanetProtocolParser::parseMessage\<close>: the message, or null, and what it logs.\<close>

definition parseMessage :: "string \<Rightarrow> AbstractFanetMessage option \<times> parser_log list" where
  "parseMessage data =
     (if length data > MSG_SIZE_IDENTIFIER
      then (let buf = trimmed data
            in if startsWith buf MSG_FANET_RECEIVE
               then (Some (MsgReceiveEvent (ReceiveEvent_ctor (mid buf MSG_SIZE_IDENTIFIER))), [])
               else if startsWith buf MSG_FANET_REPLY
               then (Some (TransmitReply_ctor (mid buf MSG_SIZE_IDENTIFIER)), [])
               else if startsWith buf MSG_VERSION_REPLY
               then (Some (VersionReply_ctor (mid buf MSG_SIZE_IDENTIFIER)), [])
               else if startsWith buf MSG_REGION_REPLY
               then (Some (MsgGenericReply (GenericReply_ctor FMTRegionReply (mid buf MSG_SIZE_IDENTIFIER))), [])
               else (None, [MessageIgnored buf]))
      else (None, []))"

text \<open>
  The serial device (\<open>QSerialPort\<close>, Qt): whether it is open, the bytes received and not yet
  read, the buffers handed to \<open>write\<close> in order, the value \<open>write\<close> returns for a buffer, and
  the outcome of \<open>open\<close>. A closed device is neither readable nor writable, and \<open>write\<close> on
  it returns -1.
\<close>

datatype OpenResult = OpenOk | DeviceNotFoundError | OtherOpenError

record QSerialPort =
  sp_open :: bool
  sp_rx :: string
  sp_tx :: "string list"
  sp_write_result :: "string \<Rightarrow> int"
  sp_open_result :: OpenResult

definition uart_write :: "QSerialPort \<Rightarrow> string \<Rightarrow> int \<times> QSerialPort" where
  "uart_write dev buf =
     (if sp_open dev then (sp_write_result dev buf, dev\<lparr>sp_tx := sp_tx dev @ [buf]\<rparr>)
      else (- 1, dev))"

text \<open>
  \<open>FanetProtocolParser::next\<close>. \<open>next_loop\<close> is the \<open>while\<close> loop over the bytes available;
  it returns at the first end delimiter with whatever \<open>parseMessage\<close> returned, null included.
\<close>

fun next_loop ::
  "FanetProtocolParser \<Rightarrow> string \<Rightarrow> AbstractFanetMessage option \<times> FanetProtocolParser \<times> string" where
  "next_loop p [] = (None, p, [])"
| "next_loop p (byte # rest) =
     (if byte = StartDelimiter
      then next_loop
             (p\<lparr>m_log := m_log p @ (if m_buffer p \<noteq> [] \<and> \<not> startsWith (m_buffer p) MSG_INIT_IGNORE
                                    then [DiscardingIncomplete (m_buffer p)] else []),
                m_buffer := []\<rparr>) rest
      else if byte = EndDelimiter
      then (fst (parseMessage (m_buffer p)),
            p\<lparr>m_log := m_log p @ [MsgReceived (m_buffer p)] @ snd (parseMessage (m_buffer p)),
              m_buffer := []\<rparr>,
            rest)
      else next_loop (p\<lparr>m_buffer := m_buffer p @ [byte]\<rparr>) rest)"

definition parser_next ::
  "FanetProtocolParser \<Rightarrow> QSerialPort
     \<Rightarrow> AbstractFanetMessage option \<times> FanetProtocolParser \<times> QSerialPort" where
  "parser_next p dev =
     (if sp_open dev
      then (case next_loop p (sp_rx dev) of (msg, p', rest) \<Rightarrow> (msg, p', dev\<lparr>sp_rx := rest\<rparr>))
      else (None, p, dev))"

section \<open>The radio state machine (fanetradio.cpp)\<close>

datatype RadioState =
    RadioDisabled | RadioResetting | RadioInitializing | RadioReady
  | RadioError | RadioDevNotFound | RadioDevOpenFail | RadioInitTimeout | RadioComTimeout
  | RadioWrongFw

datatype GpioPin = LED_PIN_GREEN | LED_PIN_RED | FANET_PIN_BOOT | FANET_PIN_RESET

datatype gpio_call = InitPin GpioPin | SetGpio GpioPin bool | ClearGpio GpioPin

record RadioConfig =
  txPower :: int
  frequency :: int

text \<open>
  The radio object. \<open>m_gpio\<close> is \<open>None\<close> for a null pointer and otherwise the calls made on
  the GPIO object; \<open>m_timer\<close> is the interval of the single-shot timer while it is active.
  The two signals are recorded in the order of their emission; the slots connected to them
  belong to other objects.
\<close>

record FanetRadio =
  m_config :: RadioConfig
  m_state :: RadioState
  m_uart :: QSerialPort
  m_gpio :: "gpio_call list option"
  m_timer :: "nat option"
  m_parser :: FanetProtocolParser
  radioStateChanged :: "RadioState list"
  messageReceived :: "(32 word \<times> FanetPayload \<times> bool) list"

definition FANET_RESET_MSEC :: nat where "FANET_RESET_MSEC = 250"
definition FANET_INIT_TIMEOUT_MSEC :: nat where "FANET_INIT_TIMEOUT_MSEC = 10 * 1000"
definition FANET_COM_TIMEOUT_MSEC :: nat where "FANET_COM_TIMEOUT_MSEC = 3 * 1000"
definition FANET_MSG_CODE_INITIALIZED :: int where "FANET_MSG_CODE_INITIALIZED = 1"
definition FANET_EXPECTED_FW :: string where "FANET_EXPECTED_FW = ''202201131742''"

definition FanetRadio_ctor :: "RadioConfig \<Rightarrow> bool \<Rightarrow> QSerialPort \<Rightarrow> FanetRadio" where
  "FanetRadio_ctor config has_gpio dev =
     \<lparr>m_config = config, m_state = RadioDisabled, m_uart = dev,
      m_gpio = (if has_gpio
                then Some [InitPin FANET_PIN_BOOT, InitPin FANET_PIN_RESET, InitPin LED_PIN_GREEN,
                           InitPin LED_PIN_RED, ClearGpio LED_PIN_GREEN, ClearGpio LED_PIN_RED]
                else None),
      m_timer = None, m_parser = \<lparr>m_buffer = [], m_log = []\<rparr>,
      radioStateChanged = [], messageReceived = []\<rparr>"

definition gpio :: "gpio_call list \<Rightarrow> FanetRadio \<Rightarrow> FanetRadio" where
  "gpio calls r = (case m_gpio r of None \<Rightarrow> r | Some done \<Rightarrow> r\<lparr>m_gpio := Some (done @ calls)\<rparr>)"

definition setState_gpio :: "RadioState \<Rightarrow> gpio_call list" where
  "setState_gpio state =
     (case state of
        RadioResetting \<Rightarrow> [SetGpio LED_PIN_GREEN True]
      | RadioReady \<Rightarrow> [SetGpio LED_PIN_GREEN False]
      | RadioError \<Rightarrow> [ClearGpio LED_PIN_GREEN, SetGpio LED_PIN_RED True]
      | RadioDevNotFound \<Rightarrow> [ClearGpio LED_PIN_GREEN, SetGpio LED_PIN_RED True]
      | RadioDevOpenFail \<Rightarrow> [ClearGpio LED_PIN_GREEN, SetGpio LED_PIN_RED True]
      | RadioInitTimeout \<Rightarrow> [ClearGpio LED_PIN_GREEN, SetGpio LED_PIN_RED True]
      | RadioComTimeout \<Rightarrow> [ClearGpio LED_PIN_GREEN, SetGpio LED_PIN_RED True]
      | RadioWrongFw \<Rightarrow> [ClearGpio LED_PIN_GREEN, SetGpio LED_PIN_RED True]
      | _ \<Rightarrow> [ClearGpio LED_PIN_RED])"

definition setState :: "RadioState \<Rightarrow> FanetRadio \<Rightarrow> FanetRadio" where
  "setState state r =
     (if state \<noteq> m_state r
      then (gpio (setState_gpio state) r)
             \<lparr>m_state := state, radioStateChanged := radioStateChanged r @ [state]\<rparr>
      else r)"

definition isWritable :: "QSerialPort \<Rightarrow> bool" where
  "isWritable dev = sp_open dev"

definition sendMessage :: "AbstractFanetMessage \<Rightarrow> FanetRadio \<Rightarrow> bool \<times> FanetRadio" where
  "sendMessage msg r =
     (if isValid msg \<and> isCommand msg
      then (if \<not> sp_open (m_uart r) \<and> isWritable (m_uart r) then (False, r)
            else (let buf = [StartDelimiter] @ serialize msg @ [EndDelimiter];
                      w = uart_write (m_uart r) buf;
                      r1 = r\<lparr>m_uart := snd w\<rparr>
                  in if fst w \<noteq> int (length buf)
                     then (False, setState RadioError (r1\<lparr>m_timer := None\<rparr>))
                     else (True, r1)))
      else (False, r))"

definition sendData :: "FanetAddress \<Rightarrow> FanetPayload \<Rightarrow> FanetRadio \<Rightarrow> bool \<times> FanetRadio" where
  "sendData addr data r =
     (if \<not> isValid_address addr then (False, r)
      else if m_state r \<noteq> RadioReady then (False, r)
      else sendMessage (MsgTransmitCommand addr data) (gpio [SetGpio LED_PIN_GREEN True] r))"

text \<open>The \<open>dynamic_cast\<close>s of the handlers.\<close>

fun as_TransmitReply :: "AbstractFanetMessage \<Rightarrow> GenericReply option" where
  "as_TransmitReply (MsgTransmitReply g a) = Some g"
| "as_TransmitReply _ = None"

fun as_VersionReply :: "AbstractFanetMessage \<Rightarrow> string option" where
  "as_VersionReply (MsgVersionReply d) = Some d"
| "as_VersionReply _ = None"

fun as_GenericReply :: "AbstractFanetMessage \<Rightarrow> GenericReply option" where
  "as_GenericReply (MsgGenericReply g) = Some g"
| "as_GenericReply (MsgTransmitReply g a) = Some g"
| "as_GenericReply _ = None"

fun as_ReceiveEvent :: "AbstractFanetMessage \<Rightarrow> ReceiveEvent option" where
  "as_ReceiveEvent (MsgReceiveEvent e) = Some e"
| "as_ReceiveEvent _ = None"

definition onRadioInitialized :: "AbstractFanetMessage \<Rightarrow> FanetRadio \<Rightarrow> FanetRadio" where
  "onRadioInitialized msg r =
     (case as_TransmitReply msg of
        None \<Rightarrow> r
      | Some reply \<Rightarrow>
          if m_reply reply \<noteq> ReplyMsg \<or> m_code reply \<noteq> FANET_MSG_CODE_INITIALIZED then r
          else snd (sendMessage MsgVersionCommand (r\<lparr>m_timer := Some FANET_COM_TIMEOUT_MSEC\<rparr>)))"

definition handleVersionReply :: "AbstractFanetMessage \<Rightarrow> FanetRadio \<Rightarrow> FanetRadio" where
  "handleVersionReply msg r =
     (let r1 = r\<lparr>m_timer := None\<rparr>
      in case as_VersionReply msg of
           None \<Rightarrow> setState RadioWrongFw r1
         | Some d \<Rightarrow>
             if version d = [] then setState RadioWrongFw r1
             else if version d \<noteq> FANET_EXPECTED_FW then setState RadioWrongFw r1
             else (let freq = (if frequency (m_config r1) = 915 then Freq915Mhz else Freq868MHz);
                       cmd = RegionCommand_ctor (txPower (m_config r1)) freq;
                       r2 = snd (sendMessage cmd r1)
                   in r2\<lparr>m_timer := Some FANET_COM_TIMEOUT_MSEC\<rparr>))"

definition handleRegionReply :: "AbstractFanetMessage \<Rightarrow> FanetRadio \<Rightarrow> FanetRadio" where
  "handleRegionReply msg r =
     (let r1 = r\<lparr>m_timer := None\<rparr>
      in case as_GenericReply msg of
           None \<Rightarrow> setState RadioError r1
         | Some reply \<Rightarrow>
             if m_reply reply \<noteq> ReplyOk then setState RadioError r1
             else if m_state r1 = RadioInitializing
             then (let r2 = snd (sendMessage (MsgEnableCommand True) r1)
                   in setState RadioReady (r2\<lparr>m_timer := Some FANET_COM_TIMEOUT_MSEC\<rparr>))
             else r1)"

definition handleFanetReply :: "AbstractFanetMessage \<Rightarrow> FanetRadio \<Rightarrow> FanetRadio" where
  "handleFanetReply msg r =
     (case as_GenericReply msg of
        None \<Rightarrow> r
      | Some reply \<Rightarrow>
          if isReply msg
          then (let r1 = gpio [ClearGpio LED_PIN_GREEN] r
                in if m_reply reply = ReplyError then setState RadioError r1 else r1)
          else r)"

definition handleFanetPktRecv :: "AbstractFanetMessage \<Rightarrow> FanetRadio \<Rightarrow> FanetRadio" where
  "handleFanetPktRecv msg r =
     (case as_ReceiveEvent msg of
        None \<Rightarrow> r
      | Some event \<Rightarrow>
          if isValid msg
          then r\<lparr>messageReceived :=
                   messageReceived r @ [(toUInt32 (ev_addr event), ev_payload event, m_broadcast event)]\<rparr>
          else r)"

definition handleMessage :: "AbstractFanetMessage \<Rightarrow> FanetRadio \<Rightarrow> FanetRadio" where
  "handleMessage msg r =
     (case msg_type msg of
        FMTPktReceivedEvent \<Rightarrow> handleFanetPktRecv msg r
      | FMTFanetReply \<Rightarrow>
          if m_state r = RadioInitializing then onRadioInitialized msg r else handleFanetReply msg r
      | FMTRegionReply \<Rightarrow> handleRegionReply msg r
      | FMTVersionReply \<Rightarrow> handleVersionReply msg r
      | _ \<Rightarrow> r)"

text \<open>Closing the port discards the bytes not yet read.\<close>

definition deinit :: "FanetRadio \<Rightarrow> FanetRadio" where
  "deinit r =
     (let r1 = gpio [ClearGpio FANET_PIN_RESET] r;
          r2 = r1\<lparr>m_timer := None\<rparr>;
          r3 = (if sp_open (m_uart r2) then r2\<lparr>m_uart := (m_uart r2)\<lparr>sp_open := False, sp_rx := []\<rparr>\<rparr>
                else r2)
      in setState RadioDisabled r3)"

definition init :: "FanetRadio \<Rightarrow> FanetRadio" where
  "init r =
     (let r1 = (if sp_open (m_uart r) then deinit r else r);
          r2 = setState RadioResetting r1
      in case sp_open_result (m_uart r2) of
           DeviceNotFoundError \<Rightarrow> setState RadioDevNotFound r2
         | OtherOpenError \<Rightarrow> setState RadioDevOpenFail r2
         | OpenOk \<Rightarrow>
             (gpio [SetGpio FANET_PIN_BOOT True, ClearGpio FANET_PIN_RESET]
                (r2\<lparr>m_uart := (m_uart r2)\<lparr>sp_open := True\<rparr>\<rparr>))
               \<lparr>m_timer := Some FANET_RESET_MSEC\<rparr>)"

text \<open>\<open>FanetRadio::onTimeout\<close>: the single-shot timer has fired and is no longer active.\<close>

definition onTimeout :: "FanetRadio \<Rightarrow> FanetRadio" where
  "onTimeout r =
     (let r0 = r\<lparr>m_timer := None\<rparr>
      in case m_state r0 of
           RadioResetting \<Rightarrow>
             (setState RadioInitializing (gpio [SetGpio FANET_PIN_RESET True] r0))
               \<lparr>m_timer := Some FANET_INIT_TIMEOUT_MSEC\<rparr>
         | RadioInitializing \<Rightarrow> setState RadioInitTimeout r0
         | RadioReady \<Rightarrow> setState RadioComTimeout r0
         | _ \<Rightarrow> r0)"

text \<open>
  \<open>FanetRadio::onReadyRead\<close>: \<open>while ((msg = m_parser->next())) { ... }\<close>. The loop ends
  when \<open>next\<close> returns null. Every call of \<open>next\<close> that returns a message has consumed at
  least one byte, and no handler touches the bytes still to read, which is why the loop
  terminates.
\<close>

lemma next_loop_consumes:
  "next_loop p (b # bs) = (m, p', rest) \<Longrightarrow> length rest \<le> length bs"
proof (induction bs arbitrary: p b)
  case Nil
  then show ?case by (auto split: if_splits)
next
  case (Cons c cs)
  show ?case
  proof (cases "b = StartDelimiter")
    case True
    with Cons.prems obtain q where "next_loop q (c # cs) = (m, p', rest)" by simp
    from Cons.IH [OF this] show ?thesis by simp
  next
    case no_start: False
    show ?thesis
    proof (cases "b = EndDelimiter")
      case True
      with no_start Cons.prems have "rest = c # cs" by simp
      then show ?thesis by simp
    next
      case False
      with no_start Cons.prems obtain q where "next_loop q (c # cs) = (m, p', rest)" by simp
      from Cons.IH [OF this] show ?thesis by simp
    qed
  qed
qed

lemma next_loop_shorter:
  "next_loop p bs = (Some msg, p', rest) \<Longrightarrow> length rest < length bs"
proof (cases bs)
  case Nil
  assume "next_loop p bs = (Some msg, p', rest)"
  with Nil show ?thesis by simp
next
  case (Cons b cs)
  assume "next_loop p bs = (Some msg, p', rest)"
  with Cons have "length rest \<le> length cs" by (auto dest: next_loop_consumes simp del: next_loop.simps)
  with Cons show ?thesis by simp
qed

lemma setState_uart: "m_uart (setState s r) = m_uart r"
  by (simp add: setState_def gpio_def split: option.splits)

lemma sendMessage_rx: "sp_rx (m_uart (snd (sendMessage m r))) = sp_rx (m_uart r)"
  by (simp add: sendMessage_def uart_write_def Let_def setState_uart)

lemma handleMessage_rx: "sp_rx (m_uart (handleMessage m r)) = sp_rx (m_uart r)"
  by (simp add: handleMessage_def handleFanetPktRecv_def onRadioInitialized_def
        handleFanetReply_def handleRegionReply_def handleVersionReply_def gpio_def Let_def
        setState_uart sendMessage_rx
      split: FanetMessageType.splits option.splits)

function onReadyRead :: "FanetRadio \<Rightarrow> FanetRadio" where
  "onReadyRead r =
     (case parser_next (m_parser r) (m_uart r) of
        (None, p, dev) \<Rightarrow> r\<lparr>m_parser := p, m_uart := dev\<rparr>
      | (Some msg, p, dev) \<Rightarrow>
          onReadyRead (if isValid msg then handleMessage msg (r\<lparr>m_parser := p, m_uart := dev\<rparr>)
                       else r\<lparr>m_parser := p, m_uart := dev\<rparr>))"
  by pat_completeness auto
termination
proof (relation "measure (\<lambda>r. length (sp_rx (m_uart r)))")
  show "wf (measure (\<lambda>r. length (sp_rx (m_uart r))))" by simp
next
  fix r :: FanetRadio and x2 x1 msg p dev
  assume "(x1, x2) = parser_next (m_parser r) (m_uart r)" "x1 = Some msg" "(p, dev) = x2"
  then have "length (sp_rx dev) < length (sp_rx (m_uart r))"
    by (auto simp: parser_next_def split: if_splits prod.splits dest: next_loop_shorter)
  then show "(if isValid msg then handleMessage msg (r\<lparr>m_parser := p, m_uart := dev\<rparr>)
              else r\<lparr>m_parser := p, m_uart := dev\<rparr>, r)
             \<in> measure (\<lambda>r. length (sp_rx (m_uart r)))"
    by (simp add: handleMessage_rx)
qed

text \<open>
  Bytes arriving on the open serial line: they are appended to the device's read buffer,
  the device emits \<open>readyRead\<close> once, and the connected slot \<open>onReadyRead\<close> runs. A closed
  port receives nothing.
\<close>

definition receive :: "string \<Rightarrow> FanetRadio \<Rightarrow> FanetRadio" where
  "receive bytes r =
     (if sp_open (m_uart r)
      then onReadyRead (r\<lparr>m_uart := (m_uart r)\<lparr>sp_rx := sp_rx (m_uart r) @ bytes\<rparr>\<rparr>)
      else r)"

section \<open>The dispatcher (fanetmessagedispatcher.cpp)\<close>

text \<open>
  A \<open>QDateTime\<close> is \<open>None\<close> when invalid and otherwise a number of milliseconds since the
  epoch. \<open>secsTo\<close> is 0 when either side is invalid and truncates towards zero; an invalid
  date-time is smaller than every valid one.
\<close>

type_synonym QDateTime = "int option"

definition msecs_to_secs :: "int \<Rightarrow> int" where
  "msecs_to_secs ms = (if 0 \<le> ms then ms div 1000 else - ((- ms) div 1000))"

definition secsTo :: "QDateTime \<Rightarrow> QDateTime \<Rightarrow> int" where
  "secsTo a b = (case (a, b) of (Some x, Some y) \<Rightarrow> msecs_to_secs (y - x) | _ \<Rightarrow> 0)"

definition addSecs :: "QDateTime \<Rightarrow> int \<Rightarrow> QDateTime" where
  "addSecs a s = map_option (\<lambda>x. x + s * 1000) a"

definition datetime_greater :: "QDateTime \<Rightarrow> QDateTime \<Rightarrow> bool" where
  "datetime_greater a b =
     (case b of None \<Rightarrow> a \<noteq> None | Some y \<Rightarrow> (case a of None \<Rightarrow> False | Some x \<Rightarrow> y < x))"

record FanetConfig =
  txIntervalWeather :: int
  txIntervalNames :: int
  inactivityTimeout :: int
  weatherDataMaxAge :: int

text \<open>
  A weather station as the dispatcher sees it (\<open>AbstractWeatherStation\<close>): the observation,
  the configured position and update interval, the current update interval, and the number
  of \<open>update()\<close> calls made on it.
\<close>

record WeatherStation =
  lastUpdate :: QDateTime
  windDirection :: int
  windSpeed :: int
  windGusts :: int
  station_temperature :: int
  stationName :: string
  availableData :: byte
  config_position :: QGeoCoordinate
  config_updateInterval :: int
  m_updateIntervalSecs :: int
  update_calls :: nat

definition WD_Temperature :: byte where "WD_Temperature = 0x08"

definition setUpdateInterval :: "int \<Rightarrow> WeatherStation \<Rightarrow> WeatherStation" where
  "setUpdateInterval secs st = (if secs \<noteq> m_updateIntervalSecs st then st\<lparr>m_updateIntervalSecs := secs\<rparr> else st)"

definition update :: "WeatherStation \<Rightarrow> WeatherStation" where
  "update st = st\<lparr>update_calls := Suc (update_calls st)\<rparr>"

text \<open>
  The calls the dispatcher makes on its radio. It ignores what \<open>sendData\<close> returns, so the
  dispatcher is modelled with the list of these calls in place of the radio object.
\<close>

datatype radio_call = CallInit | CallSendData FanetAddress FanetPayload

fun is_sendData :: "radio_call \<Rightarrow> bool" where
  "is_sendData (CallSendData a p) = True"
| "is_sendData CallInit = False"

record FanetMessageDispatcher =
  d_config :: FanetConfig
  m_stations :: "WeatherStation list"
  m_lastNodeSeen :: QDateTime
  m_lastWeatherUpdate :: QDateTime
  m_lastNameUpdate :: QDateTime
  timer_active :: bool
  radio_calls :: "radio_call list"

text \<open>\<open>FanetRadio::supportsAddressChange()\<close> returns \<open>false\<close>.\<close>

definition supportsAddressChange :: bool where "supportsAddressChange = False"

definition namePayload :: "string \<Rightarrow> FanetPayload" where
  "namePayload name = \<lparr>m_type = PTName, m_data = map of_char name\<rparr>"

text \<open>The constructor calls \<open>radio->init()\<close>.\<close>

definition FanetMessageDispatcher_ctor :: "FanetConfig \<Rightarrow> WeatherStation list \<Rightarrow> FanetMessageDispatcher" where
  "FanetMessageDispatcher_ctor config stations =
     \<lparr>d_config = config, m_stations = stations, m_lastNodeSeen = None,
      m_lastWeatherUpdate = None, m_lastNameUpdate = None, timer_active = False,
      radio_calls = [CallInit]\<rparr>"

fun sendWeatherData_loop :: "QDateTime \<Rightarrow> WeatherStation list \<Rightarrow> radio_call list" where
  "sendWeatherData_loop maxAge [] = []"
| "sendWeatherData_loop maxAge (station # rest) =
     (if datetime_greater (lastUpdate station) maxAge
      then [CallSendData FanetAddress_default
              (servicePayload
                 (SHWind OR (if availableData station AND WD_Temperature \<noteq> 0 then SHTemperature else 0))
                 (config_position station) (station_temperature station) (windDirection station)
                 (windSpeed station) (windGusts station) 0 0)]
      else [])
     @ (if \<not> supportsAddressChange then [] else sendWeatherData_loop maxAge rest)"

definition sendWeatherData :: "int \<Rightarrow> FanetMessageDispatcher \<Rightarrow> FanetMessageDispatcher" where
  "sendWeatherData now d =
     (let maxAge = addSecs (Some now) (- weatherDataMaxAge (d_config d))
      in d\<lparr>m_lastWeatherUpdate := Some now,
            radio_calls := radio_calls d @ sendWeatherData_loop maxAge (m_stations d)\<rparr>)"

fun sendStationNames_loop :: "WeatherStation list \<Rightarrow> radio_call list" where
  "sendStationNames_loop [] = []"
| "sendStationNames_loop (station # rest) =
     (if stationName station \<noteq> []
      then [CallSendData FanetAddress_default (namePayload (stationName station))]
      else [])
     @ (if \<not> supportsAddressChange then [] else sendStationNames_loop rest)"

definition sendStationNames :: "int \<Rightarrow> FanetMessageDispatcher \<Rightarrow> FanetMessageDispatcher" where
  "sendStationNames now d =
     d\<lparr>m_lastNameUpdate := Some now,
       radio_calls := radio_calls d @ sendStationNames_loop (m_stations d)\<rparr>"

definition disableWeatherUpdates :: "FanetMessageDispatcher \<Rightarrow> FanetMessageDispatcher" where
  "disableWeatherUpdates d =
     d\<lparr>m_stations := map (setUpdateInterval 0) (m_stations d), timer_active := False\<rparr>"

definition enabledWeatherUpdates :: "FanetMessageDispatcher \<Rightarrow> FanetMessageDispatcher" where
  "enabledWeatherUpdates d =
     d\<lparr>m_stations := map (\<lambda>st. update (setUpdateInterval (config_updateInterval st) st)) (m_stations d),
       timer_active := True\<rparr>"

text \<open>
  The clock readings of one tick: the variable \<open>current\<close>, the second reading inside the
  inactivity check, and the readings of \<open>sendStationNames\<close> and \<open>sendWeatherData\<close>.
\<close>

record tick_times =
  t_current :: int
  t_inactivity :: int
  t_names :: int
  t_weather :: int

definition dispatcher_onTimeout :: "tick_times \<Rightarrow> FanetMessageDispatcher \<Rightarrow> FanetMessageDispatcher" where
  "dispatcher_onTimeout t d =
     (if inactivityTimeout (d_config d) > 0
         \<and> (m_lastNodeSeen d = None
            \<or> secsTo (m_lastNodeSeen d) (Some (t_inactivity t)) > inactivityTimeout (d_config d))
      then disableWeatherUpdates d
      else
        (let d1 = (if txIntervalNames (d_config d) > 0
                      \<and> (m_lastNameUpdate d = None
                         \<or> secsTo (m_lastNameUpdate d) (Some (t_current t)) > txIntervalNames (d_config d))
                   then sendStationNames (t_names t) d else d)
         in if txIntervalWeather (d_config d1) > 0
               \<and> (m_lastWeatherUpdate d1 = None
                  \<or> secsTo (m_lastWeatherUpdate d1) (Some (t_current t)) > txIntervalWeather (d_config d1))
            then sendWeatherData (t_weather t) d1 else d1))"

definition onRadioStateChanged :: "RadioState \<Rightarrow> FanetMessageDispatcher \<Rightarrow> FanetMessageDispatcher" where
  "onRadioStateChanged state d =
     (case state of
        RadioReady \<Rightarrow> enabledWeatherUpdates d
      | RadioError \<Rightarrow> (disableWeatherUpdates d)\<lparr>radio_calls := radio_calls d @ [CallInit]\<rparr>
      | RadioComTimeout \<Rightarrow> (disableWeatherUpdates d)\<lparr>radio_calls := radio_calls d @ [CallInit]\<rparr>
      | _ \<Rightarrow> d)"

definition onFanetMessageReceived ::
  "32 word \<Rightarrow> FanetPayload \<Rightarrow> bool \<Rightarrow> int \<Rightarrow> FanetMessageDispatcher \<Rightarrow> FanetMessageDispatcher" where
  "onFanetMessageReceived addr payload broadcast now d =
     (if m_type payload = PTTracking \<or> m_type payload = PTGroundTracking
      then (let d1 = d\<lparr>m_lastNodeSeen := Some now\<rparr>
            in if \<not> timer_active d1 then enabledWeatherUpdates d1 else d1)
      else d)"

text \<open>The events the event loop delivers to the dispatcher, and a run over a list of them.\<close>

datatype dispatcher_event =
    Tick tick_times
  | StateChanged RadioState
  | PktReceived "32 word" FanetPayload bool int

fun deliver :: "dispatcher_event \<Rightarrow> FanetMessageDispatcher \<Rightarrow> FanetMessageDispatcher" where
  "deliver (Tick t) d = dispatcher_onTimeout t d"
| "deliver (StateChanged state) d = onRadioStateChanged state d"
| "deliver (PktReceived addr payload broadcast now) d = onFanetMessageReceived addr payload broadcast now d"

fun run :: "dispatcher_event list \<Rightarrow> FanetMessageDispatcher \<Rightarrow> FanetMessageDispatcher" where
  "run [] d = d"
| "run (e # es) d = run es (deliver e d)"

fun node_seen_event :: "dispatcher_event \<Rightarrow> bool" where
  "node_seen_event (PktReceived addr payload broadcast now) =
     (m_type payload = PTTracking \<or> m_type payload = PTGroundTracking)"
| "node_seen_event _ = False"

section \<open>Reading a whole stream\<close>

text \<open>
  \<open>drain\<close> calls \<open>next\<close> again and again until no byte is left, and collects the messages
  that the calls return (a null result adds nothing).
\<close>

function drain :: "FanetProtocolParser \<Rightarrow> string \<Rightarrow> AbstractFanetMessage list \<times> FanetProtocolParser" where
  "drain p s =
     (if s = [] then ([], p)
      else (case next_loop p s of
              (msg, p', rest) \<Rightarrow>
                (case drain p' rest of
                   (msgs, q) \<Rightarrow> ((case msg of None \<Rightarrow> [] | Some m \<Rightarrow> [m]) @ msgs, q))))"
  by pat_completeness auto
termination
proof (relation "measure (\<lambda>(p, s). length s)", goal_cases)
  case 1
  show ?case by simp
next
  case (2 p s msg y p' rest)
  then obtain b bs where "s = b # bs" "next_loop p (b # bs) = (msg, p', rest)"
    by (cases s) (auto simp del: next_loop.simps)
  then have "length rest < length s"
    using next_loop_consumes [of p b bs msg p' rest] by simp
  then show ?case by simp
qed

text \<open>
  The framing in the words of the protocol description: the stream is cut at every
  delimiter. Each cut gives a frame, the text since the previous delimiter (for the first
  frame, preceded by what the buffer held) together with the delimiter that closed it; the
  text after the last delimiter is pending.
\<close>

definition is_delimiter :: "char \<Rightarrow> bool" where
  "is_delimiter c = (c = StartDelimiter \<or> c = EndDelimiter)"

function frames_of :: "string \<Rightarrow> string \<Rightarrow> (string \<times> char) list \<times> string" where
  "frames_of b s =
     (case dropWhile (\<lambda>c. \<not> is_delimiter c) s of
        [] \<Rightarrow> ([], b @ s)
      | d # r \<Rightarrow> (case frames_of [] r of
                    (fs, pending) \<Rightarrow> ((b @ takeWhile (\<lambda>c. \<not> is_delimiter c) s, d) # fs, pending)))"
  by pat_completeness auto
termination
proof (relation "measure (\<lambda>(b, s). length s)")
  show "wf (measure (\<lambda>(b, s). length s))" by simp
next
  fix b s :: string and d r
  assume "dropWhile (\<lambda>c. \<not> is_delimiter c) s = d # r"
  then have "length (d # r) \<le> length s" by (metis length_dropWhile_le)
  then show "(([], r), (b, s)) \<in> measure (\<lambda>(b, s). length s)" by simp
qed

text \<open>
  What the frames stand for: a frame closed by the end delimiter is a body, handed to
  \<open>parseMessage\<close>; a frame closed by a start delimiter is a discarded partial buffer, which
  is reported unless it is empty or starts with the initialisation chatter.
\<close>

fun frame_messages :: "(string \<times> char) list \<Rightarrow> AbstractFanetMessage list" where
  "frame_messages [] = []"
| "frame_messages ((body, d) # fs) =
     (if d = EndDelimiter
      then (case fst (parseMessage body) of None \<Rightarrow> [] | Some m \<Rightarrow> [m])
      else [])
     @ frame_messages fs"

fun frame_log :: "(string \<times> char) list \<Rightarrow> parser_log list" where
  "frame_log [] = []"
| "frame_log ((body, d) # fs) =
     (if d = EndDelimiter then [MsgReceived body] @ snd (parseMessage body)
      else if body \<noteq> [] \<and> \<not> startsWith body MSG_INIT_IGNORE then [DiscardingIncomplete body]
      else [])
     @ frame_log fs"

declare onReadyRead.simps [simp del]
declare drain.simps [simp del]
declare frames_of.simps [simp del]

section \<open>Scenarios\<close>

text \<open>
  A serial device that opens and accepts every buffer whole, the configuration of the
  bring-up scenario (868 MHz, 14 dBm), its byte stream, and the radio after \<open>init()\<close> and the
  expiry of the 250 ms reset timer.
\<close>

definition stock_device :: QSerialPort where
  "stock_device = \<lparr>sp_open = False, sp_rx = [], sp_tx = [],
                    sp_write_result = (\<lambda>buf. int (length buf)), sp_open_result = OpenOk\<rparr>"

definition bringup_config :: RadioConfig where
  "bringup_config = \<lparr>txPower = 14, frequency = 868\<rparr>"

definition bringup_stream :: string where
  "bringup_stream =
     ''#CCCCC\<newline>#FNR MSG,1,initialized\<newline>#DGV build-202201131742\<newline>#DGR OK\<newline>#FNR OK\<newline>''"

definition bringup_frames :: "string list" where
  "bringup_frames =
     [''#CCCCC\<newline>'', ''#FNR MSG,1,initialized\<newline>'', ''#DGV build-202201131742\<newline>'',
      ''#DGR OK\<newline>'', ''#FNR OK\<newline>'']"

definition radio_disabled :: FanetRadio where
  "radio_disabled = FanetRadio_ctor bringup_config True stock_device"

definition radio_after_reset :: FanetRadio where
  "radio_after_reset = onTimeout (init radio_disabled)"

text \<open>The activity-gating scenario: inactivity timeout 600 s, weather interval 40 s.\<close>

definition gating_config :: FanetConfig where
  "gating_config = \<lparr>txIntervalWeather = 40, txIntervalNames = 300, inactivityTimeout = 600,
                     weatherDataMaxAge = 900\<rparr>"

definition gating_station :: WeatherStation where
  "gating_station =
     \<lparr>lastUpdate = Some 1000000, windDirection = 90, windSpeed = 80, windGusts = 150,
      station_temperature = 215, stationName = ''Station'', availableData = 0x0F,
      config_position = Coordinate (95 / 2) (41 / 4), config_updateInterval = 60,
      m_updateIntervalSecs = 0, update_calls = 0\<rparr>"

definition gating_dispatcher :: FanetMessageDispatcher where
  "gating_dispatcher = FanetMessageDispatcher_ctor gating_config [gating_station]"

definition tick_at :: "int \<Rightarrow> dispatcher_event" where
  "tick_at now = Tick \<lparr>t_current = now, t_inactivity = now, t_names = now, t_weather = now\<rparr>"

definition gating_events :: "dispatcher_event list" where
  "gating_events =
     [StateChanged RadioReady, tick_at 1001000,
      PktReceived 0x112222 (namePayload ''Pilot'') True 1002000,
      StateChanged RadioReady, tick_at 1003000]"

section \<open>Properties of the payload codec\<close>

lemma qRound_nonneg_frac:
  "0 \<le> n \<Longrightarrow> 0 < m \<Longrightarrow> qRound (of_int n / of_int m) = (2 * n + m) div (2 * m)"
proof -
  assume n: "0 \<le> n" and m: "0 < m"
  have "(of_int n / of_int m + 1 / 2 :: rat) = of_int (2 * n + m) / of_int (2 * m)"
    using m by (simp add: field_simps)
  then have "\<lfloor>(of_int n / of_int m + 1 / 2 :: rat)\<rfloor> = (2 * n + m) div (2 * m)"
    by (simp only: floor_divide_of_int_eq)
  moreover have "(0::rat) \<le> of_int n / of_int m" using n m by simp
  ultimately show ?thesis by (simp add: qRound_def)
qed

lemma and_0x80_iff: "(b AND 0x80 \<noteq> 0) = bit b 7" for b :: byte
proof -
  have "(0x80::byte) = 2 ^ 7" by simp
  then show ?thesis by (simp only: and_exp_eq_0_iff_not_bit) simp
qed

text \<open>The encoder sets the times-5 scale bit of a wind byte exactly for inputs above 254.\<close>

lemma wind_byte_scale: "(wind_byte v AND 0x80 \<noteq> 0) = (254 < v)"
  by (simp add: and_0x80_iff wind_byte_def to_char_def bit_simps)

lemma testFlag_SHWind:
  "testFlag SHWind SHWind" "\<not> testFlag SHWind SHTemperature" "\<not> testFlag SHWind SHExtendedHeader"
  "\<not> testFlag SHWind SHHumidity" "\<not> testFlag SHWind SHPressure"
  by (simp_all add: testFlag_def SHWind_def SHTemperature_def SHExtendedHeader_def
        SHHumidity_def SHPressure_def)

text \<open>
  The encoder packs a wind of at most 254 (km/h times 10) as \<open>wind >> 1\<close>, its value in units
  of 0.2 km/h, the unit that the comment of \<open>servicePayload\<close> documents for the wind bytes.
  \<open>wind\<close> and \<open>gusts\<close> multiply the byte by 5, reading it in units of 0.5 km/h: what they
  return for such an input is five halves of it, not the input.
\<close>

lemma wind_byte_small:
  assumes "0 \<le> v" "v \<le> 254"
  shows "wind_byte v = word_of_int (v div 2)"
proof -
  have m: "(0x7F :: int) = mask 7" by (simp add: mask_eq_exp_minus_1)
  have "(0x7F :: int) AND drop_bit 1 v = take_bit 7 (drop_bit 1 v)"
    unfolding m by (simp add: take_bit_eq_mask and.commute)
  also have "\<dots> = v div 2" using assms by (simp add: take_bit_int_eq_self drop_bit_eq_div)
  finally have e: "(0x7F :: int) AND drop_bit 1 v = v div 2" .
  show ?thesis using assms e by (simp add: wind_byte_def to_char_def)
qed

lemma scaled_speed_small:
  assumes "0 \<le> v" "v \<le> 254"
  shows "scaled_speed (wind_byte v) = 5 * (v div 2)"
proof -
  have r: "0 \<le> v div 2" "v div 2 < 128" using assms by auto
  have u: "uint (word_of_int (v div 2) :: byte) = v div 2"
    using r by (simp add: uint_word_of_int take_bit_int_eq_self)
  have m: "(0x7F :: int) = mask 7" by (simp add: mask_eq_exp_minus_1)
  have "uint (wind_byte v AND 0x7F) = uint (wind_byte v) AND uint (0x7F :: byte)"
    by (rule uint_and)
  also have "\<dots> = v div 2 AND 0x7F" using u assms by (simp add: wind_byte_small)
  also have "\<dots> = take_bit 7 (v div 2)" unfolding m by (simp add: take_bit_eq_mask)
  also have "\<dots> = v div 2" using r by (simp add: take_bit_int_eq_self)
  finally have a: "uint (wind_byte v AND 0x7F) = v div 2" .
  have "\<not> 254 < v" using assms by simp
  then have b: "wind_byte v AND 0x80 = 0" using wind_byte_scale [of v] by simp
  show ?thesis using a b by (simp add: scaled_speed_def Let_def)
qed

lemma wind_decodes_small:
  assumes "0 \<le> v" "v \<le> 254"
  shows "wind (servicePayload SHWind pos temp d v g hum pres) = Some (5 * (v div 2))"
proof -
  let ?p = "servicePayload SHWind pos temp d v g hum pres"
  have h: "header_of ?p = Some SHWind"
    by (simp add: header_of_def servicePayload_def byte_at_def Let_def)
  have o: "wind_offset SHWind = 7" by (simp add: wind_offset_def testFlag_SHWind)
  have b8: "byte_at (m_data ?p) 8 = Some (wind_byte v)"
    by (simp add: servicePayload_def byte_at_def Let_def testFlag_SHWind)
  show ?thesis unfolding wind_def h using b8 o assms
    by (simp add: scaled_speed_small testFlag_SHWind)
qed

lemma gusts_decodes_small:
  assumes "0 \<le> g" "g \<le> 254"
  shows "gusts (servicePayload SHWind pos temp d v g hum pres) = Some (5 * (g div 2))"
proof -
  let ?p = "servicePayload SHWind pos temp d v g hum pres"
  have h: "header_of ?p = Some SHWind"
    by (simp add: header_of_def servicePayload_def byte_at_def Let_def)
  have o: "wind_offset SHWind = 7" by (simp add: wind_offset_def testFlag_SHWind)
  have b9: "byte_at (m_data ?p) 9 = Some (wind_byte g)"
    by (simp add: servicePayload_def byte_at_def Let_def testFlag_SHWind)
  show ?thesis unfolding gusts_def h using b9 o assms
    by (simp add: scaled_speed_small testFlag_SHWind)
qed

text \<open>
  Claim C2. The wind and the gusts decoded from a Service payload encoded with only the Wind
  flag should be the inputs, quantized. They are not: the wind 80 (8.0 km/h) is encoded as
  the byte 40 under the times-1 scale and decoded as 200 (20.0 km/h), and the gusts 150 are
  encoded as 75 and decoded as 375, because the encoder packs units of 0.2 km/h and \<open>wind\<close>
  and \<open>gusts\<close> read units of 0.5 km/h.
\<close>

theorem wind_decode_of_80:
  "byte_at (m_data (servicePayload SHWind InvalidCoordinate 0 90 80 150 0 0)) 8 = Some 40
   \<and> byte_at (m_data (servicePayload SHWind InvalidCoordinate 0 90 80 150 0 0)) 9 = Some 75
   \<and> wind (servicePayload SHWind InvalidCoordinate 0 90 80 150 0 0) = Some 200
   \<and> gusts (servicePayload SHWind InvalidCoordinate 0 90 80 150 0 0) = Some 375"
  by code_simp

text \<open>
  The encoding \<open>round(dir * 256 / 360) mod 256\<close> followed by the decoding
  \<open>round(raw * 360 / 256)\<close>, the computation of \<open>FanetPayload::heading\<close>, returns every
  direction in 0..359 to within one degree.
\<close>

lemma heading_style_roundtrip:
  assumes "0 \<le> d" "d \<le> 359"
  shows "\<bar>qRound (of_int (uint (to_char (qRound (of_int d * 256 / 360)))) * 360 / 256) - d\<bar> \<le> 1"
proof -
  define q where "q = (512 * d + 360) div 720"
  define out where "out = (720 * q + 256) div 512"
  have e: "qRound (of_int d * 256 / 360) = q"
    using qRound_nonneg_frac [of "d * 256" 360] assms by (simp add: q_def)
  have q1: "512 * d + 360 = 720 * q + (512 * d + 360) mod 720" by (simp add: q_def)
  have q2: "0 \<le> (512 * d + 360) mod 720" "(512 * d + 360) mod 720 < 720" by simp_all
  have r: "0 \<le> q" "q < 256" using q1 q2 assms by linarith+
  then have u: "uint (to_char q) = q"
    by (simp add: to_char_def uint_word_of_int take_bit_int_eq_self)
  have o: "qRound (of_int q * 360 / 256) = out"
    using qRound_nonneg_frac [of "q * 360" 256] r by (simp add: out_def)
  have o1: "720 * q + 256 = 512 * out + (720 * q + 256) mod 512" by (simp add: out_def)
  have o2: "0 \<le> (720 * q + 256) mod 512" "(720 * q + 256) mod 512 < 512" by simp_all
  have "\<bar>out - d\<bar> \<le> 1" using q1 q2 o1 o2 by linarith
  with e u o show ?thesis by simp
qed

text \<open>
  \<open>FanetPayload::dir\<close> on a payload encoded with only the Wind flag returns 0 or 1, whatever
  direction was encoded.
\<close>

lemma dir_returns_0_or_1:
  "dir (servicePayload SHWind pos temp d v g hum pres) = Some 0
   \<or> dir (servicePayload SHWind pos temp d v g hum pres) = Some 1"
proof -
  let ?p = "servicePayload SHWind pos temp d v g hum pres"
  let ?c = "to_char (qRound (of_int d * 256 / 360))"
  define u where "u = uint (to_char (sint ?c * 360))"
  have h: "header_of ?p = Some SHWind"
    by (simp add: header_of_def servicePayload_def byte_at_def Let_def)
  have o: "wind_offset SHWind = 7" by (simp add: wind_offset_def testFlag_SHWind)
  have b7: "byte_at (m_data ?p) 7 = Some ?c"
    by (simp add: servicePayload_def byte_at_def Let_def testFlag_SHWind)
  have dv: "dir ?p = Some (qRound (of_int u / 256))"
    unfolding dir_def h using b7 o by (simp add: testFlag_SHWind u_def)
  have u0: "0 \<le> u" unfolding u_def by simp
  have "u < 2 ^ LENGTH(8)" unfolding u_def by (rule uint_lt2p)
  then have u1: "u < 256" by simp
  have q: "qRound (of_int u / 256) = (2 * u + 256) div 512"
    using qRound_nonneg_frac [of u 256] u0 by simp
  show ?thesis
  proof (cases "u < 128")
    case True
    with u0 have "(2 * u + 256) div 512 = 0" by (intro div_pos_pos_trivial) simp_all
    with dv q show ?thesis by simp
  next
    case False
    have "(2 * u + 256) div 512 = ((2 * u - 256) + 512) div 512" by simp
    also have "\<dots> = (2 * u - 256) div 512 + 1" by (simp only: div_add_self2)
    also have "(2 * u - 256) div 512 = 0" using False u1 by (intro div_pos_pos_trivial) simp_all
    finally have "(2 * u + 256) div 512 = 1" by simp
    with dv q show ?thesis by simp
  qed
qed

text \<open>
  Claim C3. The wind direction decoded from a Service payload with the Wind flag should be
  within one degree of the direction encoded. \<open>FanetPayload::dir\<close> does not achieve it: for
  the direction 90 the encoded byte is 64, and \<open>dir\<close> returns 0, because it reduces the
  product \<open>64 * 360\<close> to its low 8 bits before dividing by 256.
\<close>

theorem dir_decode_of_90:
  "byte_at (m_data (servicePayload SHWind InvalidCoordinate 0 90 0 0 0 0)) 7 = Some 64
   \<and> dir (servicePayload SHWind InvalidCoordinate 0 90 0 0 0 0) = Some 0"
  by code_simp





text \<open>
  With a signed \<open>char\<close>, a received Service payload whose header has bit 7 set needs the
  position block; a header with only SupportRemoteConfig does not.
\<close>

lemma service_header_sign_extended:
  "fromReceivedData PTService [0x80] = \<lparr>m_type = PTInvalid, m_data = [0x80]\<rparr>
   \<and> fromReceivedData PTService [0x85, 0] = \<lparr>m_type = PTInvalid, m_data = [0x85, 0]\<rparr>
   \<and> fromReceivedData PTService [0x80, 0, 0, 0, 0, 0, 0]
       = \<lparr>m_type = PTService, m_data = [0x80, 0, 0, 0, 0, 0, 0]\<rparr>
   \<and> fromReceivedData PTService [0x04] = \<lparr>m_type = PTService, m_data = [0x04]\<rparr>"
  by code_simp

text \<open>
  \<open>fromReceivedData\<close> never rejects a Thermal payload, whatever its length.
\<close>

lemma thermal_never_rejected:
  "fromReceivedData PTThermal d = \<lparr>m_type = PTThermal, m_data = d\<rparr>"
  by simp

text \<open>
  Claim C5. A Thermal payload shorter than 11 bytes should be rejected as malformed. The
  code logs the warning and then accepts it: the three bytes \<open>[1, 2, 3]\<close> decode to a valid
  Thermal payload, while the same bytes as a Tracking payload are rejected.
\<close>

theorem thermal_short_payload_accepted:
  "fromReceivedData PTThermal [1, 2, 3] = \<lparr>m_type = PTThermal, m_data = [1, 2, 3]\<rparr>
   \<and> isValid_payload (fromReceivedData PTThermal [1, 2, 3])
   \<and> fromReceivedData PTTracking [1, 2, 3] = \<lparr>m_type = PTInvalid, m_data = [1, 2, 3]\<rparr>"
  by (simp add: isValid_payload_def PAYLOAD_SIZE_TRACKING_MIN_def)

section \<open>Properties of the frame parser and the messages\<close>

lemma next_loop_plain:
  "\<forall>x\<in>set c. \<not> is_delimiter x \<Longrightarrow>
     next_loop p (c @ s) = next_loop (p\<lparr>m_buffer := m_buffer p @ c\<rparr>) s"
proof (induction c arbitrary: p)
  case Nil
  then show ?case by simp
next
  case (Cons x xs)
  then have "x \<noteq> StartDelimiter" "x \<noteq> EndDelimiter" by (auto simp: is_delimiter_def)
  with Cons show ?case by simp
qed

lemma delimiters_differ: "StartDelimiter \<noteq> EndDelimiter"
  by (simp add: StartDelimiter_def EndDelimiter_def)

lemma drain_nonempty:
  "s \<noteq> [] \<Longrightarrow> drain p s =
     (case next_loop p s of (msg, p', rest) \<Rightarrow>
        (case drain p' rest of (msgs, q) \<Rightarrow> ((case msg of None \<Rightarrow> [] | Some m \<Rightarrow> [m]) @ msgs, q)))"
  by (subst drain.simps) simp

lemma drain_empty: "drain p [] = ([], p)"
  by (subst drain.simps) simp

lemma drain_after_start:
  assumes "next_loop p s = next_loop q r" "s \<noteq> []"
  shows "drain p s = drain q r"
proof (cases "r = []")
  case True
  then have "next_loop p s = (None, q, [])" using assms by simp
  then show ?thesis using assms True by (simp add: drain_nonempty drain_empty)
next
  case False
  then show ?thesis using assms by (simp add: drain_nonempty)
qed

text \<open>
  Claim C8, as amended. For every input byte stream, the parser dispatches a body at every
  end delimiter: the bytes buffered since the most recent delimiter (start or end) or, for
  the first one, since the parser was created, whether or not a start delimiter opened
  them. The messages it yields are those that \<open>parseMessage\<close> builds from these bodies, in
  order. Buffered content cut off by a start delimiter is discarded, silently when it is
  empty or starts with the chatter prefix \<open>CCCCCC\<close> and with a warning otherwise, and a new
  frame starts; the bytes after the last delimiter stay in the buffer.
\<close>

theorem drain_frames:
  "drain p s =
     (frame_messages (fst (frames_of (m_buffer p) s)),
      p\<lparr>m_log := m_log p @ frame_log (fst (frames_of (m_buffer p) s)),
        m_buffer := snd (frames_of (m_buffer p) s)\<rparr>)"
proof (induction "length s" arbitrary: p s rule: less_induct)
  case less
  let ?nd = "\<lambda>c. \<not> is_delimiter c"
  let ?c = "takeWhile ?nd s"
  have split: "s = ?c @ dropWhile ?nd s" by simp
  have plain: "\<forall>x\<in>set ?c. \<not> is_delimiter x" by (auto dest: set_takeWhileD)
  show ?case
  proof (cases "dropWhile ?nd s")
    case Nil
    have fr: "frames_of (m_buffer p) s = ([], m_buffer p @ s)"
      by (subst frames_of.simps) (simp only: Nil list.simps)
    have sc: "s = ?c" by (metis Nil append_Nil2 takeWhile_dropWhile_id)
    have "next_loop p (?c @ []) = next_loop (p\<lparr>m_buffer := m_buffer p @ ?c\<rparr>) []"
      by (rule next_loop_plain [OF plain])
    with sc have nl: "next_loop p s = (None, p\<lparr>m_buffer := m_buffer p @ s\<rparr>, [])" by simp
    show ?thesis
    proof (cases "s = []")
      case True
      then show ?thesis using fr by (simp add: drain_empty)
    next
      case False
      then show ?thesis using fr nl by (simp add: drain_nonempty drain_empty)
    qed
  next
    case (Cons d r)
    then have d: "is_delimiter d" by (metis hd_dropWhile list.sel(1) list.distinct(1))
    from Cons split have s: "s = ?c @ d # r" by simp
    then have ne: "s \<noteq> []" by auto
    have len: "length r < length s" by (subst s) simp
    obtain fs pend where rec: "frames_of [] r = (fs, pend)" by (cases "frames_of [] r")
    have fr: "frames_of (m_buffer p) s = ((m_buffer p @ ?c, d) # fs, pend)"
      using Cons rec by (subst frames_of.simps) simp
    have "next_loop p (?c @ d # r) = next_loop (p\<lparr>m_buffer := m_buffer p @ ?c\<rparr>) (d # r)"
      by (rule next_loop_plain [OF plain])
    with s have nl: "next_loop p s = next_loop (p\<lparr>m_buffer := m_buffer p @ ?c\<rparr>) (d # r)"
      by simp
    show ?thesis
    proof (cases "d = EndDelimiter")
      case True
      let ?q = "p\<lparr>m_log := m_log p @ [MsgReceived (m_buffer p @ ?c)]
                                   @ snd (parseMessage (m_buffer p @ ?c)),
                  m_buffer := []\<rparr>"
      from True nl delimiters_differ
      have "next_loop p s = (fst (parseMessage (m_buffer p @ ?c)), ?q, r)" by simp
      moreover have "drain ?q r =
         (frame_messages (fst (frames_of (m_buffer ?q) r)),
          ?q\<lparr>m_log := m_log ?q @ frame_log (fst (frames_of (m_buffer ?q) r)),
             m_buffer := snd (frames_of (m_buffer ?q) r)\<rparr>)"
        by (rule less [OF len])
      ultimately show ?thesis using fr rec True ne by (simp add: drain_nonempty)
    next
      case False
      with d have st: "d = StartDelimiter" by (simp add: is_delimiter_def)
      let ?q = "p\<lparr>m_log := m_log p @ (if m_buffer p @ ?c \<noteq> []
                                         \<and> \<not> startsWith (m_buffer p @ ?c) MSG_INIT_IGNORE
                                      then [DiscardingIncomplete (m_buffer p @ ?c)] else []),
                  m_buffer := []\<rparr>"
      from st nl have "next_loop p s = next_loop ?q r" by simp
      then have "drain p s = drain ?q r" using ne by (rule drain_after_start)
      moreover have "drain ?q r =
         (frame_messages (fst (frames_of (m_buffer ?q) r)),
          ?q\<lparr>m_log := m_log ?q @ frame_log (fst (frames_of (m_buffer ?q) r)),
             m_buffer := snd (frames_of (m_buffer ?q) r)\<rparr>)"
        by (rule less [OF len])
      ultimately show ?thesis using fr rec False by simp
    qed
  qed
qed

text \<open>
  The amended claim C8 on a stream with chatter, a frame cut off by a start delimiter, a
  body that no start delimiter opened, and pending bytes.
\<close>

theorem drain_frames_witness:
  "drain \<lparr>m_buffer = [], m_log = []\<rparr> ''CCCCCCCC#FNR MSG,1,ini#FNR OK\<newline>DGR OK\<newline>#ab''
     = ([MsgTransmitReply \<lparr>gr_type = FMTFanetReply, gr_data = '' OK'', m_code = - 1,
                           m_reply = ReplyOk, m_msg = []\<rparr> FanetAddress_default,
         MsgGenericReply \<lparr>gr_type = FMTRegionReply, gr_data = '' OK'', m_code = - 1,
                          m_reply = ReplyOk, m_msg = []\<rparr>],
        \<lparr>m_buffer = ''ab'',
         m_log = [DiscardingIncomplete ''FNR MSG,1,ini'', MsgReceived ''FNR OK'',
                  MsgReceived ''DGR OK'']\<rparr>)"
proof -
  have "frames_of [] ''CCCCCCCC#FNR MSG,1,ini#FNR OK\<newline>DGR OK\<newline>#ab''
          = ([(''CCCCCCCC'', CHR ''#''), (''FNR MSG,1,ini'', CHR ''#''), (''FNR OK'', CHR 0x0A),
              (''DGR OK'', CHR 0x0A), ([], CHR ''#'')], ''ab'')"
    by code_simp
  moreover have
    "frame_messages [(''CCCCCCCC'', CHR ''#''), (''FNR MSG,1,ini'', CHR ''#''), (''FNR OK'', CHR 0x0A),
                     (''DGR OK'', CHR 0x0A), ([], CHR ''#'')]
       = [MsgTransmitReply \<lparr>gr_type = FMTFanetReply, gr_data = '' OK'', m_code = - 1,
                             m_reply = ReplyOk, m_msg = []\<rparr> FanetAddress_default,
          MsgGenericReply \<lparr>gr_type = FMTRegionReply, gr_data = '' OK'', m_code = - 1,
                            m_reply = ReplyOk, m_msg = []\<rparr>]"
    by code_simp
  moreover have
    "frame_log [(''CCCCCCCC'', CHR ''#''), (''FNR MSG,1,ini'', CHR ''#''), (''FNR OK'', CHR 0x0A),
                (''DGR OK'', CHR 0x0A), ([], CHR ''#'')]
       = [DiscardingIncomplete ''FNR MSG,1,ini'', MsgReceived ''FNR OK'', MsgReceived ''DGR OK'']"
    by code_simp
  ultimately show ?thesis
    using drain_frames [of "\<lparr>m_buffer = [], m_log = []\<rparr>"
                           "''CCCCCCCC#FNR MSG,1,ini#FNR OK\<newline>DGR OK\<newline>#ab''"]
    by simp
qed

text \<open>
  Claim C8 as stated fails on the stream \<open>DGR OK\<close> followed by the end delimiter: it holds
  no start delimiter, so no body of it was opened by one, yet the parser yields a message.
\<close>

theorem unopened_body_counterexample:
  "StartDelimiter \<notin> set ''DGR OK\<newline>''
   \<and> fst (next_loop \<lparr>m_buffer = [], m_log = []\<rparr> ''DGR OK\<newline>'')
       = Some (MsgGenericReply \<lparr>gr_type = FMTRegionReply, gr_data = '' OK'', m_code = - 1,
                                m_reply = ReplyOk, m_msg = []\<rparr>)"
  by code_simp

text \<open>
  The sibling class \<open>TransmitReply\<close>, built for \<open>FNR\<close> bodies, does parse the address of an
  \<open>ACK\<close>.
\<close>

lemma transmit_reply_ack_has_address:
  "parseMessage ''FNR ACK,11,2222''
     = (Some (MsgTransmitReply \<lparr>gr_type = FMTFanetReply, gr_data = '' ACK,11,2222'',
                                m_code = - 1, m_reply = ReplyAck, m_msg = []\<rparr>
                \<lparr>m_manufacturerId = 0x11, m_deviceId = 0x2222\<rparr>), [])"
  by code_simp

text \<open>
  Claim C9. A \<open>GenericReply\<close> whose first token is \<open>ACK\<close> or \<open>NACK\<close> should carry the address
  parsed from the tokens after the first. The constructor sets the sub-kind and returns: the
  body \<open>ACK,11,2222\<close> of a \<open>DGR\<close> frame gives a reply of sub-kind Ack whose members are the
  raw body, the invalid code -1 and an empty message, with no address in it; the body
  \<open>NACK,11,2222\<close> likewise.
\<close>

theorem generic_reply_ack_has_no_address:
  "parseMessage ''DGR ACK,11,2222''
     = (Some (MsgGenericReply \<lparr>gr_type = FMTRegionReply, gr_data = '' ACK,11,2222'',
                               m_code = - 1, m_reply = ReplyAck, m_msg = []\<rparr>), [])
   \<and> GenericReply_ctor FMTRegionReply ''NACK,11,2222''
       = \<lparr>gr_type = FMTRegionReply, gr_data = ''NACK,11,2222'', m_code = - 1,
          m_reply = ReplyNack, m_msg = []\<rparr>"
  by code_simp

section \<open>Properties of the radio state machine\<close>

text \<open>
  The bring-up stream delivered one frame per \<open>readyRead\<close> notification takes the radio
  through Resetting, Initializing and Ready and writes the three commands.
\<close>

lemma bringup_frame_by_frame:
  "radioStateChanged (fold receive bringup_frames radio_after_reset)
     = [RadioResetting, RadioInitializing, RadioReady]
   \<and> m_state (fold receive bringup_frames radio_after_reset) = RadioReady
   \<and> sp_tx (m_uart (fold receive bringup_frames radio_after_reset))
     = [''#DGV\<newline>'', ''#DGL 868,14\<newline>'', ''#DGP 1\<newline>'']"
  by code_simp

text \<open>
  Claim C1. After \<open>init()\<close> and the expiry of the reset timer, the bring-up stream should
  take the radio through Resetting, Initializing and Ready and make it write \<open>#DGV\<close>,
  \<open>#DGL 868,14\<close> and \<open>#DGP 1\<close>. When the stream arrives in one piece, the radio stops
  reading after the first frame: \<open>next\<close> returns null for the body \<open>CCCCC\<close>, which no message
  class accepts, and the loop of \<open>onReadyRead\<close> ends with the other four frames unread. The
  states emitted are Resetting and Initializing only, nothing is written, and the next
  expiry of the timer gives InitTimeout.
\<close>

theorem bringup_single_chunk:
  "radioStateChanged (receive bringup_stream radio_after_reset) = [RadioResetting, RadioInitializing]
   \<and> m_state (receive bringup_stream radio_after_reset) = RadioInitializing
   \<and> sp_tx (m_uart (receive bringup_stream radio_after_reset)) = []
   \<and> sp_rx (m_uart (receive bringup_stream radio_after_reset))
       = ''#FNR MSG,1,initialized\<newline>#DGV build-202201131742\<newline>#DGR OK\<newline>#FNR OK\<newline>''
   \<and> radioStateChanged (onTimeout (receive bringup_stream radio_after_reset))
       = [RadioResetting, RadioInitializing, RadioInitTimeout]"
  by code_simp

text \<open>
  Claim C6. For every address and payload, if the address is invalid or the radio state is
  not Ready, \<open>sendData\<close> returns false and leaves the radio as it was: nothing is written to
  the serial device and the state is unchanged.
\<close>

theorem sendData_rejected:
  "\<not> isValid_address addr \<or> m_state r \<noteq> RadioReady \<Longrightarrow> sendData addr data r = (False, r)"
  by (auto simp: sendData_def)

text \<open>Claim C6 for the broadcast address on the radio in state Initializing.\<close>

theorem sendData_rejected_witness:
  "m_state radio_after_reset \<noteq> RadioReady
   \<and> sendData FanetAddress_default (namePayload ''Station'') radio_after_reset
       = (False, radio_after_reset)"
proof -
  have s: "m_state radio_after_reset \<noteq> RadioReady" by code_simp
  then have "\<not> isValid_address FanetAddress_default \<or> m_state radio_after_reset \<noteq> RadioReady"
    by simp
  from sendData_rejected [OF this] s show ?thesis by blast
qed

text \<open>
  Claim C10. Handling a RegionReply of sub-kind Ok while the state is not Initializing only
  stops the timer: the state is unchanged and nothing is sent. A RegionReply that is absent
  (the message is no \<open>GenericReply\<close>) or of another sub-kind sets the state to Error,
  whatever the state was.
\<close>

theorem handleRegionReply_states:
  "(as_GenericReply msg = Some reply \<and> m_reply reply = ReplyOk \<and> m_state r \<noteq> RadioInitializing
      \<longrightarrow> handleRegionReply msg r = r\<lparr>m_timer := None\<rparr>)
   \<and> (as_GenericReply msg = None
        \<or> (\<exists>reply. as_GenericReply msg = Some reply \<and> m_reply reply \<noteq> ReplyOk)
      \<longrightarrow> m_state (handleRegionReply msg r) = RadioError)"
  by (auto simp: handleRegionReply_def Let_def setState_def gpio_def split: option.splits)

text \<open>
  Claim C10 for the reply \<open>OK\<close> on the radio in state Disabled, and for the reply
  \<open>ERR,5,failed\<close> on the radio in state Initializing.
\<close>

theorem handleRegionReply_states_witness:
  "handleRegionReply (MsgGenericReply (GenericReply_ctor FMTRegionReply '' OK'')) radio_disabled
     = radio_disabled\<lparr>m_timer := None\<rparr>
   \<and> m_state (handleRegionReply (MsgGenericReply (GenericReply_ctor FMTRegionReply '' ERR,5,failed''))
                radio_after_reset) = RadioError"
proof -
  let ?ok = "GenericReply_ctor FMTRegionReply '' OK''"
  let ?err = "GenericReply_ctor FMTRegionReply '' ERR,5,failed''"
  have a: "as_GenericReply (MsgGenericReply ?ok) = Some ?ok \<and> m_reply ?ok = ReplyOk
           \<and> m_state radio_disabled \<noteq> RadioInitializing"
    by code_simp
  have "m_reply ?err \<noteq> ReplyOk" by code_simp
  then have b: "as_GenericReply (MsgGenericReply ?err) = None
           \<or> (\<exists>reply. as_GenericReply (MsgGenericReply ?err) = Some reply \<and> m_reply reply \<noteq> ReplyOk)"
    by simp
  from handleRegionReply_states [of "MsgGenericReply ?ok" ?ok radio_disabled] a
  have 1: "handleRegionReply (MsgGenericReply ?ok) radio_disabled = radio_disabled\<lparr>m_timer := None\<rparr>"
    by blast
  from handleRegionReply_states [of "MsgGenericReply ?err" ?err radio_after_reset] b
  have 2: "m_state (handleRegionReply (MsgGenericReply ?err) radio_after_reset) = RadioError"
    by blast
  from 1 2 show ?thesis by blast
qed

section \<open>Properties of the dispatcher\<close>

lemma deliver_gated:
  assumes "inactivityTimeout (d_config d) > 0" "m_lastNodeSeen d = None" "\<not> node_seen_event e"
  shows "d_config (deliver e d) = d_config d \<and> m_lastNodeSeen (deliver e d) = None
         \<and> filter is_sendData (radio_calls (deliver e d)) = filter is_sendData (radio_calls d)"
proof (cases e)
  case (Tick t)
  with assms show ?thesis by (simp add: dispatcher_onTimeout_def disableWeatherUpdates_def)
next
  case (StateChanged state)
  then show ?thesis using assms
    by (cases state)
       (simp_all add: onRadioStateChanged_def enabledWeatherUpdates_def disableWeatherUpdates_def)
next
  case (PktReceived addr payload broadcast now)
  with assms show ?thesis by (simp add: onFanetMessageReceived_def)
qed

text \<open>
  Once a Tracking packet has been received, the next tick broadcasts the station name and
  the weather.
\<close>

lemma after_node_seen_transmits:
  "filter is_sendData (radio_calls (run
      [StateChanged RadioReady,
       PktReceived 0x112222
         (fromReceivedData PTTracking [80, 6, 252, 10, 4, 0, 170, 0, 17, 34, 51]) True 1002000,
       tick_at 1003000]
      gating_dispatcher))
   = [CallSendData FanetAddress_default (namePayload ''Station''),
      CallSendData FanetAddress_default
        (servicePayload (SHWind OR SHTemperature) (Coordinate (95 / 2) (41 / 4)) 215 90 80 150 0 0)]"
  by code_simp

text \<open>
  Claim C7. If the inactivity timeout is positive and no Tracking or GroundTracking packet
  has ever been received (\<open>m_lastNodeSeen\<close> is unset), then whatever ticks, radio state
  changes and other packets the dispatcher is given, at whatever times and for whatever
  transmit intervals, it makes no \<open>sendData\<close> call, and every further tick does nothing but
  disable the updates.
\<close>

theorem inactivity_gate_blocks_transmit:
  assumes "inactivityTimeout (d_config d) > 0" and "m_lastNodeSeen d = None"
    and "\<forall>e \<in> set es. \<not> node_seen_event e"
  shows "filter is_sendData (radio_calls (run es d)) = filter is_sendData (radio_calls d)
         \<and> (\<forall>t. dispatcher_onTimeout t (run es d) = disableWeatherUpdates (run es d))"
  using assms
proof (induction es arbitrary: d)
  case Nil
  then show ?case by (simp add: dispatcher_onTimeout_def)
next
  case (Cons e es)
  then have e: "\<not> node_seen_event e" and es: "\<forall>e \<in> set es. \<not> node_seen_event e" by simp_all
  from deliver_gated [OF Cons.prems(1) Cons.prems(2) e]
  have c: "inactivityTimeout (d_config (deliver e d)) > 0" and n: "m_lastNodeSeen (deliver e d) = None"
    and f: "filter is_sendData (radio_calls (deliver e d)) = filter is_sendData (radio_calls d)"
    using Cons.prems(1) by simp_all
  from Cons.IH [OF c n es] f show ?case by simp
qed

text \<open>
  Claim C7 in the activity-gating scenario: the radio becomes ready, ticks pass and a Name
  packet is received, and no \<open>sendData\<close> call is made.
\<close>

theorem inactivity_gate_blocks_transmit_witness:
  "inactivityTimeout (d_config gating_dispatcher) = 600
   \<and> m_lastNodeSeen gating_dispatcher = None
   \<and> filter is_sendData (radio_calls (run gating_events gating_dispatcher)) = []"
proof -
  have a: "inactivityTimeout (d_config gating_dispatcher) = 600"
    by (simp add: gating_dispatcher_def FanetMessageDispatcher_ctor_def gating_config_def)
  then have a': "inactivityTimeout (d_config gating_dispatcher) > 0" by simp
  have b: "m_lastNodeSeen gating_dispatcher = None"
    by (simp add: gating_dispatcher_def FanetMessageDispatcher_ctor_def)
  have c: "\<forall>e \<in> set gating_events. \<not> node_seen_event e"
    by (simp add: gating_events_def tick_at_def namePayload_def)
  have "filter is_sendData (radio_calls gating_dispatcher) = []"
    by (simp add: gating_dispatcher_def FanetMessageDispatcher_ctor_def)
  with inactivity_gate_blocks_transmit [OF a' b c] a b show ?thesis by simp
qed

end
